theory Spec2Isabelle
  imports Complex_Main
begin

section \<open>Shared data model (types.ts)\<close>

datatype AgentState =
    REQUESTED | PLANNING_INITIAL | PLANNING_DETAILED | SECURITY_DEFINED
  | WAITING_APPROVAL | GENERATING | VALIDATING | DEPLOYING | ACTIVE | PAUSED
  | FAILED | DELETED

datatype RiskLevel = SAFE | MODERATE | SENSITIVE | CRITICAL

datatype ApprovalType =
    INITIAL_PLAN | DETAILED_PLAN | SECURITY_RULES | DEPLOYMENT | MODIFICATION | DELETION

datatype ApprovalStatus = PENDING | APPROVED | REJECTED | TIMEOUT

datatype DeploymentTarget = LOCAL | DOCKER | CLOUD | VM | SERVER

text \<open>
  The enum members are strings at run time; \<open>state_name\<close> is the value that a template
  literal such as \<^verbatim>\<open>`${fromState}`\<close> prints.
\<close>

fun state_name :: "AgentState \<Rightarrow> string" where
  "state_name REQUESTED = ''REQUESTED''"
| "state_name PLANNING_INITIAL = ''PLANNING_INITIAL''"
| "state_name PLANNING_DETAILED = ''PLANNING_DETAILED''"
| "state_name SECURITY_DEFINED = ''SECURITY_DEFINED''"
| "state_name WAITING_APPROVAL = ''WAITING_APPROVAL''"
| "state_name GENERATING = ''GENERATING''"
| "state_name VALIDATING = ''VALIDATING''"
| "state_name DEPLOYING = ''DEPLOYING''"
| "state_name ACTIVE = ''ACTIVE''"
| "state_name PAUSED = ''PAUSED''"
| "state_name FAILED = ''FAILED''"
| "state_name DELETED = ''DELETED''"

fun status_name :: "ApprovalStatus \<Rightarrow> string" where
  "status_name PENDING = ''PENDING''"
| "status_name APPROVED = ''APPROVED''"
| "status_name REJECTED = ''REJECTED''"
| "status_name TIMEOUT = ''TIMEOUT''"

text \<open>A thrown \<^verbatim>\<open>Error\<close>: its message and its stack, which may be undefined.\<close>

datatype JsError = JsError (message: string) (stack: "string option")

text \<open>Rows of the \<^verbatim>\<open>agents\<close> and \<^verbatim>\<open>approvals\<close> tables, with the columns the engines read.\<close>

record Agent =
  agent_name :: string
  agent_status :: AgentState
  risk_level :: RiskLevel

record Approval =
  approval_agent_id :: string
  approval_type :: ApprovalType
  approval_status :: ApprovalStatus
  approved_by :: "string option"
  response_data :: "(string \<times> string) list"
  approval_notes :: "string option"

text \<open>
  The \<^verbatim>\<open>RecoveryAction\<close> that the RecoveryEngine stores, through
  \<^verbatim>\<open>memoryEngine.log\<close>, after each strategy it has run (the timestamp is left out).
\<close>

record RecoveryAction =
  ra_agent_id :: string
  ra_failure_type :: string
  ra_recovery_strategy :: string
  ra_success :: bool
  ra_details :: string

text \<open>
  What the engines do to their collaborators is kept as a trace: rows written by the
  Logger (log type, level, message, agent id), the recovery rows (level, message, agent id,
  action), messages handed to the Telegram interface, and calls made to the
  DeploymentEngine from other engines.
\<close>

datatype LogKind =
    LT_INFO | LT_WARNING | LT_ERROR | LT_APPROVAL | LT_STATE_TRANSITION | LT_MONITORING

datatype LogSeverity = LL_INFO | LL_WARNING | LL_ERROR

text \<open>Which engine calls the DeploymentEngine: the place of the call in the source.\<close>

datatype CallSite = FromRecovery | FromAlert | FromUnhealthy

datatype Event =
    Logged LogKind LogSeverity string "string option"
  | LoggedAction LogSeverity string string RecoveryAction
  | SendError string string "string option"
  | SendSuccess string string
  | SendAlert string string string
  | SendStatusUpdate string string string
  | StopAgentCall CallSite string
  | RestartAgentCall CallSite string

text \<open>
  The state the engines share: the two database tables (MemoryEngine), the RecoveryEngine's
  \<^verbatim>\<open>recoveryAttempts\<close> map and the trace. Database calls are taken to succeed: a query
  that throws is outside the model.
\<close>

record World =
  agents :: "string \<rightharpoonup> Agent"
  approvals :: "string \<rightharpoonup> Approval"
  recoveryAttempts :: "string \<rightharpoonup> nat"
  events :: "Event list"

definition emit :: "Event \<Rightarrow> World \<Rightarrow> World" where
  "emit e w = w\<lparr>events := events w @ [e]\<rparr>"

subsection \<open>Logger (logger.ts)\<close>

definition logger_info :: "string \<Rightarrow> string option \<Rightarrow> World \<Rightarrow> World" where
  "logger_info msg agentId = emit (Logged LT_INFO LL_INFO msg agentId)"

definition logger_warning :: "string \<Rightarrow> string option \<Rightarrow> World \<Rightarrow> World" where
  "logger_warning msg agentId = emit (Logged LT_WARNING LL_WARNING msg agentId)"

definition logger_error :: "string \<Rightarrow> string option \<Rightarrow> World \<Rightarrow> World" where
  "logger_error msg agentId = emit (Logged LT_ERROR LL_ERROR msg agentId)"

definition logger_approval :: "string \<Rightarrow> string option \<Rightarrow> World \<Rightarrow> World" where
  "logger_approval msg agentId = emit (Logged LT_APPROVAL LL_INFO msg agentId)"

text \<open>The arrow of the transition messages, U+2192, as its three UTF-8 bytes.\<close>

definition arrow :: string where
  "arrow = [CHR 0xE2, CHR 0x86, CHR 0x92]"

text \<open>
  In state.manager.ts the arrow of the warning is stored mis-encoded, as the three
  characters U+00E2, U+2020, U+2019; these are their UTF-8 bytes.
\<close>

definition garbled_arrow :: string where
  "garbled_arrow = [CHR 0xC3, CHR 0xA2, CHR 0xE2, CHR 0x80, CHR 0xA0, CHR 0xE2, CHR 0x80, CHR 0x99]"

definition logger_stateTransition ::
  "string \<Rightarrow> string \<Rightarrow> AgentState \<Rightarrow> AgentState \<Rightarrow> World \<Rightarrow> World" where
  "logger_stateTransition msg agentId fromState toState =
     emit (Logged LT_STATE_TRANSITION LL_INFO
       (''State transition: '' @ state_name fromState @ '' '' @ arrow @ '' ''
          @ state_name toState @ '' - '' @ msg)
       (Some agentId))"

subsection \<open>MemoryEngine (memory.engine.ts)\<close>

definition getAgent :: "string \<Rightarrow> World \<Rightarrow> Agent option" where
  "getAgent agentId w = agents w agentId"

text \<open>\<^verbatim>\<open>UPDATE agents SET status = $1 WHERE id = $2\<close>: no row, no change.\<close>

definition updateAgentState :: "string \<Rightarrow> AgentState \<Rightarrow> World \<Rightarrow> World" where
  "updateAgentState agentId newState w =
     (case agents w agentId of
        None \<Rightarrow> w
      | Some a \<Rightarrow> w\<lparr>agents := (agents w)(agentId \<mapsto> a\<lparr>agent_status := newState\<rparr>)\<rparr>)"

definition getApproval :: "string \<Rightarrow> World \<Rightarrow> Approval option" where
  "getApproval approvalId w = approvals w approvalId"

text \<open>JavaScript's \<^verbatim>\<open>x || null\<close> on an optional string: undefined and the empty string give null.\<close>

fun or_null :: "string option \<Rightarrow> string option" where
  "or_null None = None"
| "or_null (Some s) = (if s = [] then None else Some s)"

text \<open>
  \<^verbatim>\<open>UPDATE approvals SET status = $1, approved_by = $2, response_data = $3,
  approval_notes = $4, responded_at = NOW() WHERE id = $5\<close>: the row with that id is
  overwritten whatever its present status; no row, no change.
\<close>

definition updateApprovalStatus ::
  "string \<Rightarrow> ApprovalStatus \<Rightarrow> string option \<Rightarrow> (string \<times> string) list option
     \<Rightarrow> string option \<Rightarrow> World \<Rightarrow> World" where
  "updateApprovalStatus approvalId st approvedBy responseData notes w =
     (case approvals w approvalId of
        None \<Rightarrow> w
      | Some a \<Rightarrow> w\<lparr>approvals := (approvals w)(approvalId \<mapsto>
          a\<lparr>approval_status := st,
            approved_by := or_null approvedBy,
            response_data := (case responseData of None \<Rightarrow> [] | Some d \<Rightarrow> d),
            approval_notes := or_null notes\<rparr>)\<rparr>)"

section \<open>StateManager (state.manager.ts)\<close>

fun VALID_TRANSITIONS :: "AgentState \<Rightarrow> AgentState list" where
  "VALID_TRANSITIONS REQUESTED = [PLANNING_INITIAL, FAILED]"
| "VALID_TRANSITIONS PLANNING_INITIAL = [PLANNING_DETAILED, WAITING_APPROVAL, FAILED]"
| "VALID_TRANSITIONS PLANNING_DETAILED = [SECURITY_DEFINED, FAILED]"
| "VALID_TRANSITIONS SECURITY_DEFINED = [WAITING_APPROVAL, FAILED]"
| "VALID_TRANSITIONS WAITING_APPROVAL = [GENERATING, PLANNING_DETAILED, FAILED]"
| "VALID_TRANSITIONS GENERATING = [VALIDATING, FAILED]"
| "VALID_TRANSITIONS VALIDATING = [DEPLOYING, GENERATING, FAILED]"
| "VALID_TRANSITIONS DEPLOYING = [ACTIVE, FAILED]"
| "VALID_TRANSITIONS ACTIVE = [PAUSED, DELETED, FAILED]"
| "VALID_TRANSITIONS PAUSED = [ACTIVE, DELETED]"
| "VALID_TRANSITIONS FAILED = [REQUESTED, GENERATING, DELETED]"
| "VALID_TRANSITIONS DELETED = []"

definition isValidTransition :: "AgentState \<Rightarrow> AgentState \<Rightarrow> bool" where
  "isValidTransition fromState toState \<longleftrightarrow> toState \<in> set (VALID_TRANSITIONS fromState)"

definition getValidNextStates :: "AgentState \<Rightarrow> AgentState list" where
  "getValidNextStates currentState = VALID_TRANSITIONS currentState"

definition isTerminalState :: "AgentState \<Rightarrow> bool" where
  "isTerminalState s \<longleftrightarrow> length (VALID_TRANSITIONS s) = 0"

definition getCurrentState :: "string \<Rightarrow> World \<Rightarrow> AgentState option" where
  "getCurrentState agentId w = map_option agent_status (getAgent agentId w)"

text \<open>
  \<^verbatim>\<open>transitionState(agentId, toState, reason?)\<close>. The result is the returned boolean and
  the world after the call. \<^verbatim>\<open>reason || "State transition"\<close> replaces an absent or empty
  reason. The \<^verbatim>\<open>catch\<close> block only handles a failing database call.
\<close>

definition transitionState ::
  "string \<Rightarrow> AgentState \<Rightarrow> string option \<Rightarrow> World \<Rightarrow> bool \<times> World" where
  "transitionState agentId toState reason w =
     (case getAgent agentId w of
        None \<Rightarrow>
          (False, logger_error (''Cannot transition state: Agent '' @ agentId @ '' not found'') None w)
      | Some agent \<Rightarrow>
          (let fromState = agent_status agent in
           if \<not> isValidTransition fromState toState then
             (False, logger_warning
                (''Invalid state transition attempted: '' @ state_name fromState @ '' ''
                   @ garbled_arrow @ '' '' @ state_name toState) (Some agentId) w)
           else
             (True, logger_stateTransition
                (case or_null reason of None \<Rightarrow> ''State transition'' | Some r \<Rightarrow> r)
                agentId fromState toState (updateAgentState agentId toState w))))"

text \<open>
  \<^verbatim>\<open>transitionToFailed(agentId, reason, error?)\<close>, "always allowed from any state": the
  table is not consulted.
\<close>

definition transitionToFailed :: "string \<Rightarrow> string \<Rightarrow> World \<Rightarrow> World" where
  "transitionToFailed agentId reason w =
     (case getAgent agentId w of
        None \<Rightarrow> logger_error (''Cannot fail agent: Agent '' @ agentId @ '' not found'') None w
      | Some agent \<Rightarrow>
          logger_error (''Agent transitioned to FAILED state: '' @ reason) (Some agentId)
            (updateAgentState agentId FAILED w))"

definition canTransition :: "string \<Rightarrow> AgentState \<Rightarrow> World \<Rightarrow> bool" where
  "canTransition agentId toState w =
     (case getCurrentState agentId w of
        None \<Rightarrow> False
      | Some currentState \<Rightarrow> isValidTransition currentState toState)"


section \<open>Numbers in template literals\<close>

text \<open>What \<^verbatim>\<open>`${n}`\<close> prints for an integer \<open>n\<close>: its decimal digits, with a minus sign below zero.\<close>

definition digit_char :: "nat \<Rightarrow> char" where
  "digit_char d = char_of (48 + d)"

function show_nat :: "nat \<Rightarrow> string" where
  "show_nat n = (if n < 10 then [digit_char n] else show_nat (n div 10) @ [digit_char (n mod 10)])"
  by pat_completeness auto
termination
  by (relation "measure id") auto

declare show_nat.simps [simp del]

definition show_int :: "int \<Rightarrow> string" where
  "show_int i = (if i < 0 then CHR ''-'' # show_nat (nat (- i)) else show_nat (nat i))"

section \<open>ApprovalEngine (approval.engine.ts)\<close>

definition shouldRequestApproval :: "RiskLevel \<Rightarrow> ApprovalType \<Rightarrow> bool" where
  "shouldRequestApproval riskLevel approvalType =
     (if riskLevel = CRITICAL then True
      else if riskLevel = SENSITIVE then True
      else if riskLevel = MODERATE \<and> (approvalType = DEPLOYMENT \<or> approvalType = SECURITY_RULES)
        then True
      else if approvalType = MODIFICATION \<or> approvalType = DELETION then True
      else if riskLevel = SAFE \<and> approvalType = INITIAL_PLAN then False
      else if approvalType = DETAILED_PLAN then True
      else False)"

text \<open>
  \<^verbatim>\<open>processApproval(approvalId, status, approvedBy, notes?)\<close>: the status is written
  without looking at the stored one, then the confirmation is sent.
\<close>

definition processApproval ::
  "string \<Rightarrow> ApprovalStatus \<Rightarrow> string \<Rightarrow> string option \<Rightarrow> World \<Rightarrow> World" where
  "processApproval approvalId st approvedBy notes w =
     (let w1 = logger_approval
                 (''Processing approval '' @ approvalId @ '': '' @ status_name st) None w;
          w2 = updateApprovalStatus approvalId st (Some approvedBy) None notes w1
      in case getApproval approvalId w2 of
           None \<Rightarrow> w2
         | Some approval \<Rightarrow>
             if st = APPROVED then
               emit (SendSuccess (approval_agent_id approval)
                 (''Approval '' @ approvalId @ '' approved by '' @ approvedBy)) w2
             else if st = REJECTED then
               emit (SendAlert (approval_agent_id approval) ''Approval Rejected''
                 (''Approval '' @ approvalId @ '' rejected by '' @ approvedBy
                    @ (case or_null notes of None \<Rightarrow> [] | Some n \<Rightarrow> '': '' @ n))) w2
             else w2)"

text \<open>
  The guard of the \<^verbatim>\<open>/approve\<close> and \<^verbatim>\<open>/reject\<close> commands of the Telegram interface
  (\<^verbatim>\<open>handleApprove\<close>, \<^verbatim>\<open>handleReject\<close>): a record that is not PENDING is answered
  "Approval already ..." and left alone. The reply to the chat is not part of the trace.
\<close>

definition handleResponseCommand ::
  "string \<Rightarrow> ApprovalStatus \<Rightarrow> string \<Rightarrow> World \<Rightarrow> World" where
  "handleResponseCommand approvalId st username w =
     (case getApproval approvalId w of
        None \<Rightarrow> w
      | Some approval \<Rightarrow>
          if approval_status approval \<noteq> PENDING then w
          else updateApprovalStatus approvalId st (Some username) None None w)"

text \<open>
  The clock of one \<^verbatim>\<open>waitForApproval\<close> call, in milliseconds. \<open>first_test\<close> is what
  \<^verbatim>\<open>Date.now() - startTime\<close> gives at the first loop test. In round \<open>k\<close> the awaited
  \<^verbatim>\<open>getApproval\<close> reads the table \<open>query_lag k\<close> after the loop test of that round, and
  the next loop test comes \<open>pollIntervalMs + sleep_lag k\<close> after that read: the timer of
  \<^verbatim>\<open>sleep\<close> never fires early, and may fire late. \<open>write_lag\<close> is the time between the
  last loop test and the UPDATE of the timeout.
\<close>

record Clock =
  first_test :: nat
  query_lag :: "nat \<Rightarrow> nat"
  sleep_lag :: "nat \<Rightarrow> nat"
  write_lag :: nat

definition pollIntervalMs :: nat where
  "pollIntervalMs = 5000"

text \<open>
  \<^verbatim>\<open>waitForApproval(approvalId, timeoutMs)\<close>. The loop suspends in the query and in
  \<^verbatim>\<open>sleep\<close> while other tasks (the admin's response) change the approvals table, so the
  shared world is given as a function of the time since \<^verbatim>\<open>startTime\<close>, as those other
  tasks leave it, and the times at which the call tests, reads and writes are given by its
  clock. \<open>polls\<close> counts the polls made so far and \<open>elapsed\<close> is the value of
  \<^verbatim>\<open>Date.now() - startTime\<close> at the loop test. The thrown \<^verbatim>\<open>Error\<close> is the \<open>Inl\<close>
  result. The world returned is the one the call last read or wrote, with what it wrote
  then; the row "Waiting for approval" that the call logs before \<^verbatim>\<open>startTime\<close> is not
  kept.
\<close>

function waitLoop ::
  "Clock \<Rightarrow> (nat \<Rightarrow> World) \<Rightarrow> string \<Rightarrow> nat \<Rightarrow> nat \<Rightarrow> nat
     \<Rightarrow> (JsError + ApprovalStatus) \<times> World" where
  "waitLoop clock world_at approvalId timeoutMs polls elapsed =
     (if elapsed < timeoutMs then
        (case getApproval approvalId (world_at (elapsed + query_lag clock polls)) of
           None \<Rightarrow>
             (Inl (JsError (''Approval '' @ approvalId @ '' not found'') None),
              world_at (elapsed + query_lag clock polls))
         | Some approval \<Rightarrow>
             if approval_status approval \<noteq> PENDING then
               (Inr (approval_status approval),
                logger_approval
                  (''Approval '' @ approvalId @ '' '' @ status_name (approval_status approval))
                  (Some (approval_agent_id approval))
                  (world_at (elapsed + query_lag clock polls)))
             else waitLoop clock world_at approvalId timeoutMs (Suc polls)
                    (elapsed + query_lag clock polls + pollIntervalMs + sleep_lag clock polls))
      else
        (Inr TIMEOUT,
         logger_warning (''Approval '' @ approvalId @ '' timed out'') None
           (updateApprovalStatus approvalId TIMEOUT None None None
              (world_at (elapsed + write_lag clock)))))"
  by pat_completeness auto
termination
  by (relation "measure (\<lambda>(clock, world_at, approvalId, timeoutMs, polls, elapsed).
        timeoutMs - elapsed)")
     (auto simp: pollIntervalMs_def)

declare waitLoop.simps [simp del]

definition waitForApproval ::
  "Clock \<Rightarrow> (nat \<Rightarrow> World) \<Rightarrow> string \<Rightarrow> nat \<Rightarrow> (JsError + ApprovalStatus) \<times> World" where
  "waitForApproval clock world_at approvalId timeoutMs =
     waitLoop clock world_at approvalId timeoutMs 0 (first_test clock)"

text \<open>
  The time of the loop test of round \<open>k\<close> and the time at which the poll of that round
  reads the table, as the clock gives them.
\<close>

fun test_at :: "Clock \<Rightarrow> nat \<Rightarrow> nat" where
  "test_at clock 0 = first_test clock"
| "test_at clock (Suc k) =
     test_at clock k + query_lag clock k + pollIntervalMs + sleep_lag clock k"

definition read_at :: "Clock \<Rightarrow> nat \<Rightarrow> nat" where
  "read_at clock k = test_at clock k + query_lag clock k"

text \<open>The status stored for an approval id, \<open>None\<close> when the id is unknown.\<close>

definition stored_status :: "string \<Rightarrow> World \<Rightarrow> ApprovalStatus option" where
  "stored_status approvalId w = map_option approval_status (getApproval approvalId w)"

text \<open>The status a poll at time \<open>t\<close> reads.\<close>

definition status_at :: "(nat \<Rightarrow> World) \<Rightarrow> string \<Rightarrow> nat \<Rightarrow> ApprovalStatus option" where
  "status_at world_at approvalId t = stored_status approvalId (world_at t)"


section \<open>RecoveryEngine (recovery.engine.ts)\<close>

text \<open>
  One call of \<^verbatim>\<open>recover\<close> and what it meets outside the RecoveryEngine: the thrown
  error, the length of \<^verbatim>\<open>context?.validationResult?.errors\<close> when that array is
  present, and what the DeploymentEngine's \<^verbatim>\<open>restartAgent\<close> gives (a boolean, or an
  exception). The DeploymentEngine is an interface here: calls to it are recorded in the
  trace, and the rows it logs itself are not.
\<close>

record RecoverCall =
  rc_error :: JsError
  rc_validation_errors :: "nat option"
  rc_restart :: "JsError + bool"

definition attemptKey :: "string \<Rightarrow> string \<Rightarrow> string" where
  "attemptKey agentId failureType = agentId @ '':'' @ failureType"

definition getRecoveryAttempts :: "string \<Rightarrow> string \<Rightarrow> World \<Rightarrow> nat" where
  "getRecoveryAttempts agentId failureType w =
     (case recoveryAttempts w (attemptKey agentId failureType) of None \<Rightarrow> 0 | Some n \<Rightarrow> n)"

text \<open>
  \<^verbatim>\<open>resetRecoveryAttempts(agentId, failureType?)\<close>: one key, or (no or empty failure type)
  every key that starts with \<^verbatim>\<open>`${agentId}:`\<close>.
\<close>

definition resetRecoveryAttempts :: "string \<Rightarrow> string option \<Rightarrow> World \<Rightarrow> World" where
  "resetRecoveryAttempts agentId failureType w =
     (case or_null failureType of
        Some ft \<Rightarrow> w\<lparr>recoveryAttempts := (recoveryAttempts w)(attemptKey agentId ft := None)\<rparr>
      | None \<Rightarrow> w\<lparr>recoveryAttempts :=
          (\<lambda>k. if take (length agentId + 1) k = agentId @ '':'' then None
               else recoveryAttempts w k)\<rparr>)"

definition recoverGenerationFailure :: "string \<Rightarrow> World \<Rightarrow> bool \<times> World" where
  "recoverGenerationFailure agentId w =
     transitionState agentId GENERATING (Some ''Retrying generation after failure'')
       (logger_info ''Attempting to recover from generation failure'' (Some agentId) w)"

definition recoverValidationFailure :: "string \<Rightarrow> nat option \<Rightarrow> World \<Rightarrow> bool \<times> World" where
  "recoverValidationFailure agentId errors w =
     (let w1 = logger_info ''Attempting to recover from validation failure'' (Some agentId) w
      in case errors of
           Some n \<Rightarrow>
             transitionState agentId GENERATING
               (Some (''Regenerating after validation failures: '' @ show_nat n @ '' errors'')) w1
         | None \<Rightarrow> (False, w1))"

definition recoverDeploymentFailure :: "string \<Rightarrow> World \<Rightarrow> bool \<times> World" where
  "recoverDeploymentFailure agentId w =
     transitionState agentId DEPLOYING (Some ''Retrying deployment after failure'')
       (emit (StopAgentCall FromRecovery agentId)
          (logger_info ''Attempting to recover from deployment failure'' (Some agentId) w))"

definition recoverRuntimeCrash :: "(JsError + bool) \<Rightarrow> string \<Rightarrow> World \<Rightarrow> bool \<times> World" where
  "recoverRuntimeCrash restart agentId w =
     (let w1 = emit (RestartAgentCall FromRecovery agentId)
                 (logger_info ''Attempting to recover from runtime crash'' (Some agentId) w)
      in case restart of
           Inr restarted \<Rightarrow>
             if restarted then (True, logger_info ''Agent restarted successfully'' (Some agentId) w1)
             else (False, logger_error ''Failed to restart agent'' (Some agentId) w1)
         | Inl restartError \<Rightarrow> (False, logger_error ''Error during restart'' (Some agentId) w1))"

definition recoverGenericFailure :: "string \<Rightarrow> string \<Rightarrow> World \<Rightarrow> bool \<times> World" where
  "recoverGenericFailure agentId failureType w =
     (let w1 = logger_info (''Attempting generic recovery for '' @ failureType) (Some agentId) w
      in case getCurrentState agentId w1 of
           None \<Rightarrow> (False, w1)
         | Some currentState \<Rightarrow>
             (False, transitionToFailed agentId (''Unrecoverable failure: '' @ failureType) w1))"

definition getRecoveryStrategy :: "string \<Rightarrow> string" where
  "getRecoveryStrategy failureType =
     (if failureType = ''generation_failure'' then ''retry_generation''
      else if failureType = ''validation_failure'' then ''repair_and_regenerate''
      else if failureType = ''deployment_failure'' then ''rollback_and_retry''
      else if failureType = ''runtime_crash'' then ''automatic_restart''
      else ''manual_intervention'')"

text \<open>The \<^verbatim>\<open>switch (failureType)\<close> of \<^verbatim>\<open>recover\<close>.\<close>

definition dispatchStrategy :: "RecoverCall \<Rightarrow> string \<Rightarrow> string \<Rightarrow> World \<Rightarrow> bool \<times> World" where
  "dispatchStrategy call agentId failureType w =
     (if failureType = ''generation_failure'' then recoverGenerationFailure agentId w
      else if failureType = ''validation_failure'' then
        recoverValidationFailure agentId (rc_validation_errors call) w
      else if failureType = ''deployment_failure'' then recoverDeploymentFailure agentId w
      else if failureType = ''runtime_crash'' then recoverRuntimeCrash (rc_restart call) agentId w
      else recoverGenericFailure agentId failureType w)"

text \<open>
  \<^verbatim>\<open>recover(agentId, failureType, error, context?)\<close>, with
  \<^verbatim>\<open>config.security.maxRetryAttempts\<close> as the first argument (an integer read from the
  environment, 3 by default).
\<close>

definition recover ::
  "int \<Rightarrow> RecoverCall \<Rightarrow> string \<Rightarrow> string \<Rightarrow> World \<Rightarrow> bool \<times> World" where
  "recover maxRetryAttempts call agentId failureType w =
     (case getAgent agentId w of
        None \<Rightarrow> (False, logger_error ''Cannot recover: Agent not found'' (Some agentId) w)
      | Some agent \<Rightarrow>
          (let w1 = logger_error (''Recovery initiated for '' @ failureType) (Some agentId) w;
               attempts = getRecoveryAttempts agentId failureType w1
           in if int attempts \<ge> maxRetryAttempts then
                (let w2 = logger_error
                            (''Max recovery attempts ('' @ show_int maxRetryAttempts
                               @ '') exceeded for '' @ failureType) (Some agentId) w1;
                     w3 = emit (SendError (agent_name agent)
                            (''Recovery failed after '' @ show_nat attempts @ '' attempts: ''
                               @ failureType) (stack (rc_error call))) w2
                 in (False, transitionToFailed agentId (''Recovery failed: '' @ failureType) w3))
              else
                (let w2 = w1\<lparr>recoveryAttempts :=
                            (recoveryAttempts w1)(attemptKey agentId failureType \<mapsto> attempts + 1)\<rparr>;
                     (success, w3) = dispatchStrategy call agentId failureType w2;
                     action = \<lparr>ra_agent_id = agentId, ra_failure_type = failureType,
                               ra_recovery_strategy = getRecoveryStrategy failureType,
                               ra_success = success,
                               ra_details = (if success then ''Recovery successful''
                                  else ''Recovery failed: '' @ message (rc_error call))\<rparr>;
                     w4 = emit (LoggedAction (if success then LL_INFO else LL_ERROR)
                            (''Recovery '' @ (if success then ''succeeded'' else ''failed'')
                               @ '' for '' @ failureType) agentId action) w3
                 in if success then
                      (True, emit (SendSuccess (agent_name agent)
                               (''Recovery successful for '' @ failureType))
                         (w4\<lparr>recoveryAttempts :=
                            (recoveryAttempts w4)(attemptKey agentId failureType := None)\<rparr>))
                    else
                      (False, emit (SendAlert (agent_name agent) ''Recovery Attempt Failed''
                         (''Failed to recover from '' @ failureType @ ''. Attempt ''
                            @ show_nat (attempts + 1) @ ''/'' @ show_int maxRetryAttempts)) w4))))"

text \<open>
  A run of \<^verbatim>\<open>recover\<close> calls for one agent and one failure class, one after the other: the
  booleans returned, in order, and the world after the last call.
\<close>

fun recover_run ::
  "int \<Rightarrow> RecoverCall list \<Rightarrow> string \<Rightarrow> string \<Rightarrow> World \<Rightarrow> bool list \<times> World" where
  "recover_run maxRetryAttempts [] agentId failureType w = ([], w)"
| "recover_run maxRetryAttempts (call # calls) agentId failureType w =
     (let (ok, w1) = recover maxRetryAttempts call agentId failureType w;
          (oks, w2) = recover_run maxRetryAttempts calls agentId failureType w1
      in (ok # oks, w2))"

text \<open>The strategies run so far for a pair: its recovery rows in the trace.\<close>

fun is_action_of :: "string \<Rightarrow> string \<Rightarrow> Event \<Rightarrow> bool" where
  "is_action_of agentId failureType (LoggedAction lvl msg aid action) =
     (ra_agent_id action = agentId \<and> ra_failure_type action = failureType)"
| "is_action_of agentId failureType e = False"

definition dispatched :: "string \<Rightarrow> string \<Rightarrow> World \<Rightarrow> nat" where
  "dispatched agentId failureType w = length (filter (is_action_of agentId failureType) (events w))"


section \<open>DeploymentEngine (deployment.engine.ts)\<close>

subsection \<open>Resource limits\<close>

definition is_digit :: "char \<Rightarrow> bool" where
  "is_digit c \<longleftrightarrow> (48::nat) \<le> of_char c \<and> (of_char c :: nat) \<le> 57"

definition digit_val :: "char \<Rightarrow> nat" where
  "digit_val c = of_char c - 48"

text \<open>The value of a string of decimal digits, as \<^verbatim>\<open>parseInt\<close> reads it.\<close>

definition parse_digits :: "string \<Rightarrow> nat" where
  "parse_digits ds = foldl (\<lambda>acc c. 10 * acc + digit_val c) 0 ds"

text \<open>
  \<^verbatim>\<open>parseMemoryLimit(limit?)\<close>: absent or empty gives undefined; the pattern
  \<^verbatim>\<open>/^(\d+)([mg])$/i\<close> asks for one or more digits and then exactly one of m, g, M, G.
  JavaScript numbers are doubles: the natural number computed here is the number the code
  computes as long as the digits denote a value below \<open>2 ^ 53\<close>.
\<close>

definition parseMemoryLimit :: "string option \<Rightarrow> nat option" where
  "parseMemoryLimit limit =
     (case or_null limit of
        None \<Rightarrow> None
      | Some l \<Rightarrow>
          (let ds = takeWhile is_digit l; rest = dropWhile is_digit l
           in if ds \<noteq> [] \<and> rest \<in> {''m'', ''g'', ''M'', ''G''} then
                (let v = parse_digits ds
                 in if rest \<in> {''m'', ''M''} then Some (v * 1024 * 1024)
                    else Some (v * 1024 * 1024 * 1024))
              else None))"

text \<open>
  A JavaScript number, with the finite ones as the rationals they stand for (rounding to
  the nearest double is left out; \<open>1 / 2\<close> and \<open>10 ^ 9\<close> are doubles).
\<close>

datatype JsNumber = NaN | Finite rat | PosInfinity | NegInfinity

text \<open>The white space that \<^verbatim>\<open>parseFloat\<close> skips, as far as it is ASCII.\<close>

definition is_space :: "char \<Rightarrow> bool" where
  "is_space c \<longleftrightarrow> c \<in> {CHR '' '', CHR 0x09, CHR 0x0A, CHR 0x0B, CHR 0x0C, CHR 0x0D}"

text \<open>The exponent part \<^verbatim>\<open>e[+-]?digits\<close> at the head of a string, when there is one.\<close>

definition exponent_part :: "string \<Rightarrow> int" where
  "exponent_part s =
     (case s of
        [] \<Rightarrow> 0
      | c # r \<Rightarrow>
          if c = CHR ''e'' \<or> c = CHR ''E'' then
            (case r of
               [] \<Rightarrow> 0
             | d # r' \<Rightarrow>
                 if d = CHR ''-'' then
                   (if takeWhile is_digit r' = [] then 0
                    else - int (parse_digits (takeWhile is_digit r')))
                 else if d = CHR ''+'' then int (parse_digits (takeWhile is_digit r'))
                 else int (parse_digits (takeWhile is_digit r)))
          else 0)"

definition pow10 :: "int \<Rightarrow> rat" where
  "pow10 e = (if e < 0 then 1 / 10 ^ nat (- e) else 10 ^ nat e)"

text \<open>An unsigned decimal literal at the head of a string (the longest one), or NaN.\<close>

definition unsigned_literal :: "string \<Rightarrow> JsNumber" where
  "unsigned_literal s =
     (if take 8 s = ''Infinity'' then PosInfinity
      else
        (let ip = takeWhile is_digit s; r1 = dropWhile is_digit s;
             fp = (case r1 of [] \<Rightarrow> [] | c # r \<Rightarrow> if c = CHR ''.'' then takeWhile is_digit r else []);
             r2 = (case r1 of [] \<Rightarrow> [] | c # r \<Rightarrow> if c = CHR ''.'' then dropWhile is_digit r else r1)
         in if ip = [] \<and> fp = [] then NaN
            else Finite ((of_nat (parse_digits ip) + of_nat (parse_digits fp) / 10 ^ length fp)
                           * pow10 (exponent_part r2))))"

fun negate :: "JsNumber \<Rightarrow> JsNumber" where
  "negate NaN = NaN"
| "negate (Finite q) = Finite (- q)"
| "negate PosInfinity = NegInfinity"
| "negate NegInfinity = PosInfinity"

text \<open>\<^verbatim>\<open>parseFloat\<close>: leading white space, a sign, then the literal.\<close>

definition parseFloat :: "string \<Rightarrow> JsNumber" where
  "parseFloat s =
     (case dropWhile is_space s of
        [] \<Rightarrow> NaN
      | c # r \<Rightarrow>
          if c = CHR ''-'' then negate (unsigned_literal r)
          else if c = CHR ''+'' then unsigned_literal r
          else unsigned_literal (c # r))"

text \<open>\<^verbatim>\<open>value * 1e9\<close> on a number that is not NaN.\<close>

fun times_1e9 :: "JsNumber \<Rightarrow> JsNumber" where
  "times_1e9 (Finite q) = Finite (q * 10 ^ 9)"
| "times_1e9 v = v"

definition parseCpuLimit :: "string option \<Rightarrow> JsNumber option" where
  "parseCpuLimit limit =
     (case or_null limit of
        None \<Rightarrow> None
      | Some l \<Rightarrow> (case parseFloat l of NaN \<Rightarrow> None | v \<Rightarrow> Some (times_1e9 v)))"

subsection \<open>Deploying\<close>

record ResourceLimits =
  cpu_limit :: "string option"
  memory_limit :: "string option"

record DeploymentStrategy =
  target :: DeploymentTarget
  resource_limits :: "ResourceLimits option"
  environment_variables :: "(string \<times> string) list"

record DeploymentResult =
  success :: bool
  deployment_id :: "string option"
  process_id :: "nat option"
  container_id :: "string option"
  error_message :: "string option"

text \<open>
  A Node \<^verbatim>\<open>ChildProcess\<close> as the engine sees it once the grace period is over. \<open>killed\<close>
  is Node's \<^verbatim>\<open>subprocess.killed\<close>: true once \<^verbatim>\<open>subprocess.kill()\<close> has sent the child
  a signal; it does not say that the child has exited. \<open>exitCode\<close> is the exit code of a
  child that has exited by itself, \<open>None\<close> while it runs.
\<close>

record ChildProcess =
  pid :: "nat option"
  killed :: bool
  exitCode :: "int option"

text \<open>The \<^verbatim>\<open>HostConfig\<close> given to \<^verbatim>\<open>docker.createContainer\<close>.\<close>

record HostConfig =
  RestartPolicy :: string
  Memory :: "nat option"
  NanoCpus :: "JsNumber option"

text \<open>
  What one deployment meets outside the engine: \<^verbatim>\<open>npm install\<close> and \<^verbatim>\<open>npm run build\<close>
  under \<^verbatim>\<open>execSync\<close> (an error when the command fails or times out), the spawned child
  after the 2000 ms of \<^verbatim>\<open>sleep\<close>, and the Docker daemon's answers.
\<close>

record DeployEnv =
  npm_install :: "JsError option"
  npm_build :: "JsError option"
  spawned :: ChildProcess
  docker_build :: "JsError option"
  docker_create :: "JsError option"
  docker_start :: "JsError option"
  docker_inspect_id :: string

record DeploymentMetadata =
  dm_agentId :: string
  dm_agentName :: string
  dm_target :: DeploymentTarget
  dm_processId :: "nat option"
  dm_containerId :: "string option"
  dm_running :: bool

text \<open>The engine's two maps, and the containers it has asked Docker to create.\<close>

record Deployer =
  deployments :: "string \<rightharpoonup> DeploymentMetadata"
  processes :: "string \<rightharpoonup> ChildProcess"
  created :: "(string \<times> HostConfig) list"

definition failure :: "JsError \<Rightarrow> DeploymentResult" where
  "failure e = \<lparr>success = False, deployment_id = None, process_id = None, container_id = None,
                 error_message = Some (message e)\<rparr>"

definition deployLocal :: "DeployEnv \<Rightarrow> string \<Rightarrow> Deployer \<Rightarrow> DeploymentResult \<times> Deployer" where
  "deployLocal env agentId d =
     (case npm_install env of
        Some e \<Rightarrow> (failure e, d)
      | None \<Rightarrow>
          (case npm_build env of
             Some e \<Rightarrow> (failure e, d)
           | None \<Rightarrow>
               (let childProcess = spawned env;
                    d1 = d\<lparr>processes := (processes d)(agentId \<mapsto> childProcess)\<rparr>
                in if killed childProcess then
                     (failure (JsError ''Process failed to start'' None), d1)
                   else
                     (\<lparr>success = True, deployment_id = Some agentId,
                       process_id = pid childProcess, container_id = None,
                       error_message = None\<rparr>, d1))))"

definition hostConfig :: "DeploymentStrategy \<Rightarrow> HostConfig" where
  "hostConfig strategy =
     (case resource_limits strategy of
        None \<Rightarrow> \<lparr>RestartPolicy = ''unless-stopped'', Memory = None, NanoCpus = None\<rparr>
      | Some limits \<Rightarrow>
          \<lparr>RestartPolicy = ''unless-stopped'',
           Memory = parseMemoryLimit (memory_limit limits),
           NanoCpus = parseCpuLimit (cpu_limit limits)\<rparr>)"

definition deployDocker ::
  "DeployEnv \<Rightarrow> string \<Rightarrow> string \<Rightarrow> DeploymentStrategy \<Rightarrow> Deployer
     \<Rightarrow> DeploymentResult \<times> Deployer" where
  "deployDocker env agentId agentName strategy d =
     (case docker_build env of
        Some e \<Rightarrow> (failure e, d)
      | None \<Rightarrow>
          (let d1 = d\<lparr>created := created d @ [(agentName, hostConfig strategy)]\<rparr>
           in case docker_create env of
                Some e \<Rightarrow> (failure e, d1)
              | None \<Rightarrow>
                  (case docker_start env of
                     Some e \<Rightarrow> (failure e, d1)
                   | None \<Rightarrow>
                       (\<lparr>success = True, deployment_id = Some agentId, process_id = None,
                         container_id = Some (docker_inspect_id env),
                         error_message = None\<rparr>, d1))))"

fun target_name :: "DeploymentTarget \<Rightarrow> string" where
  "target_name LOCAL = ''local''"
| "target_name DOCKER = ''docker''"
| "target_name CLOUD = ''cloud''"
| "target_name VM = ''vm''"
| "target_name SERVER = ''server''"

definition deployAgent ::
  "DeployEnv \<Rightarrow> string \<Rightarrow> string \<Rightarrow> DeploymentStrategy \<Rightarrow> Deployer
     \<Rightarrow> DeploymentResult \<times> Deployer" where
  "deployAgent env agentId agentName strategy d =
     (if target strategy \<noteq> LOCAL \<and> target strategy \<noteq> DOCKER then
        (failure (JsError (''Unsupported deployment target: '' @ target_name (target strategy)) None), d)
      else
        (let (result, d1) =
               (if target strategy = LOCAL then deployLocal env agentId d
                else deployDocker env agentId agentName strategy d)
         in if success result then
              (result, d1\<lparr>deployments := (deployments d1)(agentId \<mapsto>
                 \<lparr>dm_agentId = agentId, dm_agentName = agentName, dm_target = target strategy,
                  dm_processId = process_id result, dm_containerId = container_id result,
                  dm_running = True\<rparr>)\<rparr>)
            else (result, d1)))"


section \<open>MonitorEngine (monitor.engine.ts)\<close>

datatype Health = healthy | unhealthy | degraded | unknown

fun health_name :: "Health \<Rightarrow> string" where
  "health_name healthy = ''healthy''"
| "health_name unhealthy = ''unhealthy''"
| "health_name degraded = ''degraded''"
| "health_name unknown = ''unknown''"

text \<open>
  A \<^verbatim>\<open>HealthStatus\<close>; of the metrics only \<^verbatim>\<open>error_count\<close> is ever set. Uptime and the
  time of the check are left out.
\<close>

record HealthStatus =
  hs_status :: Health
  hs_error_count :: nat
  hs_issues :: "string list"

datatype Comparison = GT | LT | GE | LE | EQ | NE

datatype AlertAction = notify | restart | pause | escalate

text \<open>An alert condition; thresholds are taken to be integers.\<close>

record AlertCondition =
  metric :: string
  threshold :: int
  comparison :: Comparison
  action :: AlertAction

record MonitoringStrategy =
  health_check_interval_ms :: nat
  alert_conditions :: "AlertCondition list"

text \<open>
  The engine's \<^verbatim>\<open>sessions\<close> map (a session is known by its \<^verbatim>\<open>healthHistory\<close>) and the
  trace of what the engine logs, sends and asks of the DeploymentEngine.
\<close>

record Monitor =
  sessions :: "string \<rightharpoonup> HealthStatus list"
  trace :: "Event list"

definition tell :: "Event \<Rightarrow> Monitor \<Rightarrow> Monitor" where
  "tell e m = m\<lparr>trace := trace m @ [e]\<rparr>"

text \<open>
  What one tick meets outside the engine: whether the DeploymentEngine has a deployment
  for the agent, what \<^verbatim>\<open>isAgentRunning\<close> answers, how many recent error rows the log
  holds (at most 10 are asked for), and what an autonomous \<^verbatim>\<open>restartAgent\<close> gives.
\<close>

record Tick =
  deployment_found :: bool
  isRunning :: bool
  errorCount :: nat
  restart_outcome :: "JsError + bool"

text \<open>\<^verbatim>\<open>healthStatus.metrics[condition.metric]\<close>: undefined unless the metric is the error count.\<close>

definition metric_value :: "HealthStatus \<Rightarrow> string \<Rightarrow> int option" where
  "metric_value hs name = (if name = ''error_count'' then Some (int (hs_error_count hs)) else None)"

fun compare_metric :: "Comparison \<Rightarrow> int \<Rightarrow> int \<Rightarrow> bool" where
  "compare_metric GT v t = (v > t)"
| "compare_metric LT v t = (v < t)"
| "compare_metric GE v t = (v \<ge> t)"
| "compare_metric LE v t = (v \<le> t)"
| "compare_metric EQ v t = (v = t)"
| "compare_metric NE v t = (v \<noteq> t)"

definition handleAlert ::
  "string \<Rightarrow> string \<Rightarrow> string \<Rightarrow> int \<Rightarrow> int \<Rightarrow> AlertAction \<Rightarrow> Monitor \<Rightarrow> Monitor" where
  "handleAlert agentId agentName metricName v t act m =
     (let msg = ''Alert: '' @ metricName @ '' is '' @ show_int v @ '' (threshold: ''
                  @ show_int t @ '')'';
          m1 = tell (SendAlert agentName ''Monitoring Alert'' msg)
                 (tell (Logged LT_MONITORING LL_INFO msg (Some agentId)) m)
      in case act of
           restart \<Rightarrow>
             tell (RestartAgentCall FromAlert agentId)
               (tell (Logged LT_MONITORING LL_INFO ''Attempting to restart agent due to alert''
                  (Some agentId)) m1)
         | pause \<Rightarrow>
             tell (StopAgentCall FromAlert agentId)
               (tell (Logged LT_MONITORING LL_INFO ''Pausing agent due to alert''
                  (Some agentId)) m1)
         | escalate \<Rightarrow>
             tell (SendAlert agentName ''CRITICAL ALERT - Escalation Required'' msg) m1
         | notify \<Rightarrow> m1)"

fun checkAlertConditions ::
  "string \<Rightarrow> string \<Rightarrow> HealthStatus \<Rightarrow> AlertCondition list \<Rightarrow> Monitor \<Rightarrow> Monitor" where
  "checkAlertConditions agentId agentName hs [] m = m"
| "checkAlertConditions agentId agentName hs (c # cs) m =
     checkAlertConditions agentId agentName hs cs
       (case metric_value hs (metric c) of
          None \<Rightarrow> m
        | Some v \<Rightarrow>
            if compare_metric (comparison c) v (threshold c)
            then handleAlert agentId agentName (metric c) v (threshold c) (action c) m
            else m)"

text \<open>\<^verbatim>\<open>healthHistory.slice(-5)\<close>: the last five entries, or all of them when there are fewer.\<close>

definition last5 :: "'a list \<Rightarrow> 'a list" where
  "last5 xs = drop (length xs - 5) xs"

definition recentUnhealthy :: "HealthStatus list \<Rightarrow> nat" where
  "recentUnhealthy history = length (filter (\<lambda>h. hs_status h = unhealthy) (last5 history))"

definition handleUnhealthy ::
  "Tick \<Rightarrow> string \<Rightarrow> string \<Rightarrow> string \<Rightarrow> Monitor \<Rightarrow> Monitor" where
  "handleUnhealthy tick agentId agentName reason m =
     (let m1 = tell (SendAlert agentName ''Agent Unhealthy'' (''Reason: '' @ reason))
                 (tell (Logged LT_MONITORING LL_INFO (''Agent unhealthy: '' @ reason)
                    (Some agentId)) m)
      in case sessions m1 agentId of
           None \<Rightarrow> m1
         | Some history \<Rightarrow>
             if recentUnhealthy history \<ge> 3 then
               (let m2 = tell (RestartAgentCall FromUnhealthy agentId)
                           (tell (Logged LT_MONITORING LL_INFO
                              (''Attempting automatic restart after ''
                                 @ show_nat (recentUnhealthy history) @ '' unhealthy checks'')
                              (Some agentId)) m1)
                in case restart_outcome tick of
                     Inr restarted \<Rightarrow>
                       if restarted then
                         tell (SendStatusUpdate agentName ''Restarted''
                           ''Agent was automatically restarted due to health issues'') m2
                       else
                         tell (SendError agentName ''Failed to restart agent automatically'' None) m2
                   | Inl e \<Rightarrow>
                       tell (Logged LT_ERROR LL_ERROR ''Failed to restart unhealthy agent''
                         (Some agentId)) m2)
             else m1)"

text \<open>\<^verbatim>\<open>Array.prototype.join(", ")\<close> on the issues.\<close>

fun join_issues :: "string list \<Rightarrow> string" where
  "join_issues [] = []"
| "join_issues [x] = x"
| "join_issues (x # y # ys) = x @ '', '' @ join_issues (y # ys)"

text \<open>
  The status a tick records when the deployment exists: unhealthy when the agent does not
  run, degraded when the error count is above \<^verbatim>\<open>config.monitoring.alertErrorThreshold\<close>
  (the first argument), healthy otherwise.
\<close>

definition tick_result :: "int \<Rightarrow> Tick \<Rightarrow> HealthStatus" where
  "tick_result alertErrorThreshold tick =
     (if \<not> isRunning tick then
        \<lparr>hs_status = unhealthy, hs_error_count = errorCount tick,
         hs_issues = [''Agent is not running'']\<rparr>
      else if int (errorCount tick) > alertErrorThreshold then
        \<lparr>hs_status = degraded, hs_error_count = errorCount tick,
         hs_issues = [''High error count: '' @ show_nat (errorCount tick)]\<rparr>
      else \<lparr>hs_status = healthy, hs_error_count = errorCount tick, hs_issues = []\<rparr>)"

text \<open>\<^verbatim>\<open>healthHistory.push(healthStatus)\<close>, then \<^verbatim>\<open>shift()\<close> above 100 entries.\<close>

definition push_capped :: "HealthStatus list \<Rightarrow> HealthStatus \<Rightarrow> HealthStatus list" where
  "push_capped history h =
     (if length (history @ [h]) > 100 then tl (history @ [h]) else history @ [h])"

text \<open>\<^verbatim>\<open>performHealthCheck\<close>, one tick.\<close>

definition performHealthCheck ::
  "int \<Rightarrow> Tick \<Rightarrow> string \<Rightarrow> string \<Rightarrow> MonitoringStrategy \<Rightarrow> Monitor \<Rightarrow> Monitor" where
  "performHealthCheck alertErrorThreshold tick agentId agentName strategy m =
     (case sessions m agentId of
        None \<Rightarrow> m
      | Some history \<Rightarrow>
          if \<not> deployment_found tick then
            handleUnhealthy tick agentId agentName ''No deployment found'' m
          else
            (let healthStatus = tick_result alertErrorThreshold tick;
                 m1 = tell (Logged LT_MONITORING LL_INFO
                              (''Health check: '' @ health_name (hs_status healthStatus))
                              (Some agentId))
                        (m\<lparr>sessions := (sessions m)(agentId \<mapsto> push_capped history healthStatus)\<rparr>);
                 m2 = checkAlertConditions agentId agentName healthStatus
                        (alert_conditions strategy) m1
             in if hs_status healthStatus = unhealthy then
                  handleUnhealthy tick agentId agentName (join_issues (hs_issues healthStatus)) m2
                else m2))"

text \<open>The history a session holds after a tick.\<close>

definition history_after :: "int \<Rightarrow> Tick \<Rightarrow> HealthStatus list \<Rightarrow> HealthStatus list" where
  "history_after alertErrorThreshold tick history =
     (if deployment_found tick then push_capped history (tick_result alertErrorThreshold tick)
      else history)"

text \<open>The autonomous restarts in a trace: the restarts asked for by \<^verbatim>\<open>handleUnhealthy\<close>.\<close>

definition autonomous_restarts :: "string \<Rightarrow> Event list \<Rightarrow> nat" where
  "autonomous_restarts agentId es = count_list es (RestartAgentCall FromUnhealthy agentId)"


section \<open>Example inputs\<close>

definition echo_bot :: "AgentState \<Rightarrow> Agent" where
  "echo_bot s = \<lparr>agent_name = ''echo-bot'', agent_status = s, risk_level = SAFE\<rparr>"

text \<open>One agent in state \<open>s\<close> that has used \<open>n\<close> recovery attempts for generation failures.\<close>

definition echo_world :: "AgentState \<Rightarrow> nat \<Rightarrow> World" where
  "echo_world s n =
     \<lparr>agents = [''agent-1'' \<mapsto> echo_bot s], approvals = Map.empty,
      recoveryAttempts = [''agent-1:generation_failure'' \<mapsto> n], events = []\<rparr>"

definition generation_error :: RecoverCall where
  "generation_error =
     \<lparr>rc_error = JsError ''generation failed'' None, rc_validation_errors = None,
      rc_restart = Inr True\<rparr>"

definition deploy_request :: "ApprovalStatus \<Rightarrow> Approval" where
  "deploy_request st =
     \<lparr>approval_agent_id = ''agent-1'', approval_type = DEPLOYMENT, approval_status = st,
      approved_by = (if st = PENDING then None else Some ''admin''), response_data = [],
      approval_notes = None\<rparr>"

definition approval_world :: "ApprovalStatus \<Rightarrow> World" where
  "approval_world st =
     \<lparr>agents = [''agent-1'' \<mapsto> echo_bot WAITING_APPROVAL],
      approvals = [''approval-1'' \<mapsto> deploy_request st],
      recoveryAttempts = Map.empty, events = []\<rparr>"

text \<open>
  A clock on which a query takes 4 ms, a timer fires 1 ms late and the timeout is written
  2 ms after the last test.
\<close>

definition lagging_clock :: Clock where
  "lagging_clock =
     \<lparr>first_test = 0, query_lag = (\<lambda>k. 4), sleep_lag = (\<lambda>k. 1), write_lag = 2\<rparr>"

text \<open>The admin approves 3 seconds after the wait has started.\<close>

definition late_response :: "nat \<Rightarrow> World" where
  "late_response t = (if t < 3000 then approval_world PENDING else approval_world APPROVED)"

text \<open>Nobody answers.\<close>

definition no_response :: "nat \<Rightarrow> World" where
  "no_response t = approval_world PENDING"

text \<open>The approvals table loses the row 3 seconds after the wait has started.\<close>

definition row_removed :: "nat \<Rightarrow> World" where
  "row_removed t =
     (if t < 3000 then approval_world PENDING else (approval_world PENDING)\<lparr>approvals := Map.empty\<rparr>)"

text \<open>A child that has exited by itself with code 1 before the grace period is over.\<close>

definition crashed_child :: ChildProcess where
  "crashed_child = \<lparr>pid = Some 4242, killed = False, exitCode = Some 1\<rparr>"

definition crash_env :: DeployEnv where
  "crash_env =
     \<lparr>npm_install = None, npm_build = None, spawned = crashed_child, docker_build = None,
      docker_create = None, docker_start = None, docker_inspect_id = ''c0ffee''\<rparr>"

definition local_strategy :: DeploymentStrategy where
  "local_strategy = \<lparr>target = LOCAL, resource_limits = None, environment_variables = []\<rparr>"

definition weather_limits :: ResourceLimits where
  "weather_limits = \<lparr>cpu_limit = Some ''0.5'', memory_limit = Some ''512m''\<rparr>"

definition weather_strategy :: DeploymentStrategy where
  "weather_strategy =
     \<lparr>target = DOCKER, resource_limits = Some weather_limits, environment_variables = []\<rparr>"

definition no_deployments :: Deployer where
  "no_deployments = \<lparr>deployments = Map.empty, processes = Map.empty, created = []\<rparr>"

definition check :: "Health \<Rightarrow> HealthStatus" where
  "check st = \<lparr>hs_status = st, hs_error_count = 0, hs_issues = []\<rparr>"

definition monitor_with :: "HealthStatus list \<Rightarrow> Monitor" where
  "monitor_with history = \<lparr>sessions = [''agent-1'' \<mapsto> history], trace = []\<rparr>"

definition running_tick :: Tick where
  "running_tick =
     \<lparr>deployment_found = True, isRunning = True, errorCount = 0, restart_outcome = Inr True\<rparr>"

definition stopped_tick :: Tick where
  "stopped_tick =
     \<lparr>deployment_found = True, isRunning = False, errorCount = 0, restart_outcome = Inr True\<rparr>"

definition plain_strategy :: MonitoringStrategy where
  "plain_strategy = \<lparr>health_check_interval_ms = 60000, alert_conditions = []\<rparr>"


section \<open>Frame facts: what each operation leaves alone\<close>

lemma emit_fields [simp]:
  "agents (emit e w) = agents w"
  "approvals (emit e w) = approvals w"
  "recoveryAttempts (emit e w) = recoveryAttempts w"
  "events (emit e w) = events w @ [e]"
  by (simp_all add: emit_def)

lemmas logger_defs = logger_info_def logger_warning_def logger_error_def logger_approval_def
  logger_stateTransition_def

lemma digit_char_simps:
  "digit_char 0 = CHR ''0''" "digit_char 1 = CHR ''1''" "digit_char 2 = CHR ''2''"
  "digit_char 3 = CHR ''3''" "digit_char 4 = CHR ''4''" "digit_char 5 = CHR ''5''"
  "digit_char 6 = CHR ''6''" "digit_char 7 = CHR ''7''" "digit_char 8 = CHR ''8''"
  "digit_char 9 = CHR ''9''" "digit_char (Suc 0) = CHR ''1''"
  by code_simp+

lemma show_nat_3: "show_nat 3 = ''3''"
  by (simp add: show_nat.simps digit_char_simps)

lemma show_int_3: "show_int 3 = ''3''"
  by (simp add: show_int_def show_nat_3)

lemma updateAgentState_frame [simp]:
  "recoveryAttempts (updateAgentState a s w) = recoveryAttempts w"
  "events (updateAgentState a s w) = events w"
  "approvals (updateAgentState a s w) = approvals w"
  by (simp_all add: updateAgentState_def split: option.splits)

lemma getAgent_emit [simp]: "getAgent a (emit e w) = getAgent a w"
  by (simp add: getAgent_def)

lemma getAgent_attempts_update [simp]: "getAgent a (w\<lparr>recoveryAttempts := m\<rparr>) = getAgent a w"
  by (simp add: getAgent_def)

lemma getRecoveryAttempts_emit [simp]:
  "getRecoveryAttempts a f (emit e w) = getRecoveryAttempts a f w"
  by (simp add: getRecoveryAttempts_def)

text \<open>An agent row is never removed: the engines only rewrite its status.\<close>

lemma updateAgentState_exists:
  "getAgent a (updateAgentState b s w) = None \<longleftrightarrow> getAgent a w = None"
  by (simp add: getAgent_def updateAgentState_def split: option.splits)

section \<open>StateManager: acceptance and rejection\<close>

lemma transitionState_accepts_iff:
  "fst (transitionState agentId toState reason w) \<longleftrightarrow>
     (\<exists>agent. getAgent agentId w = Some agent
        \<and> toState \<in> set (VALID_TRANSITIONS (agent_status agent)))"
  by (simp add: transitionState_def isValidTransition_def Let_def split: option.splits)

lemma transitionState_rejection_keeps_agents:
  "\<not> fst (transitionState agentId toState reason w) \<Longrightarrow>
     agents (snd (transitionState agentId toState reason w)) = agents w"
  by (simp add: transitionState_def Let_def logger_defs split: option.splits if_splits)

lemma transitionState_attempts [simp]:
  "recoveryAttempts (snd (transitionState a s r w)) = recoveryAttempts w"
  by (simp add: transitionState_def Let_def logger_defs split: option.splits)

lemma transitionToFailed_attempts [simp]:
  "recoveryAttempts (transitionToFailed a r w) = recoveryAttempts w"
  by (simp add: transitionToFailed_def logger_defs split: option.splits)

lemma transitionState_exists:
  "getAgent a (snd (transitionState b s r w)) = None \<longleftrightarrow> getAgent a w = None"
  by (simp add: transitionState_def Let_def logger_defs updateAgentState_exists
      split: option.splits)

lemma transitionToFailed_exists:
  "getAgent a (transitionToFailed b r w) = None \<longleftrightarrow> getAgent a w = None"
  by (simp add: transitionToFailed_def logger_defs updateAgentState_exists split: option.splits)

lemma transitionToFailed_state:
  "getAgent a w = Some agent \<Longrightarrow> getCurrentState a (transitionToFailed a r w) = Some FAILED"
  by (simp add: transitionToFailed_def getCurrentState_def getAgent_def updateAgentState_def
      logger_defs)

text \<open>
  Claim C1. \<^verbatim>\<open>transitionState\<close> returns true exactly when the agent exists and the target
  is in the allowed set of its current state, the allowed set of WAITING_APPROVAL holding
  GENERATING, PLANNING_DETAILED, FAILED and DELETED; a rejected call leaves the state
  alone. The first and the last part hold (\<open>transitionState_accepts_iff\<close>,
  \<open>transitionState_rejection_keeps_agents\<close>), but the table of this source has no edge from
  WAITING_APPROVAL to DELETED, the edge that BUGFIX-ROUND2.md reports as added to
  state.manager.ts: deleting an agent that waits for approval is refused with a warning
  and the agent stays in WAITING_APPROVAL.
\<close>

theorem transitionState_waiting_approval_to_deleted:
  "transitionState ''agent-1'' DELETED (Some ''Deleted by admin'') (approval_world PENDING)
     = (False,
        logger_warning
          (''Invalid state transition attempted: WAITING_APPROVAL '' @ garbled_arrow
             @ '' DELETED'')
          (Some ''agent-1'') (approval_world PENDING))
   \<and> getCurrentState ''agent-1''
        (snd (transitionState ''agent-1'' DELETED (Some ''Deleted by admin'')
           (approval_world PENDING)))
      = Some WAITING_APPROVAL"
  by (simp add: transitionState_def getAgent_def getCurrentState_def approval_world_def
      echo_bot_def isValidTransition_def logger_defs)


text \<open>
  Claim C5, as stated: DELETED is terminal for every StateManager operation, so that
  \<^verbatim>\<open>transitionToFailed\<close> does not move a DELETED agent to FAILED. It does: the function
  never looks at the current state.
\<close>

theorem transitionToFailed_leaves_deleted:
  "getCurrentState ''agent-1'' (echo_world DELETED 0) = Some DELETED \<and>
   getCurrentState ''agent-1''
     (transitionToFailed ''agent-1'' ''Unrecoverable failure: disk_full'' (echo_world DELETED 0))
     = Some FAILED"
  by (simp add: transitionToFailed_def getCurrentState_def getAgent_def echo_world_def
      echo_bot_def updateAgentState_def logger_defs)

text \<open>
  Claim C5, amended: for an agent whose state is DELETED, \<^verbatim>\<open>transitionState\<close> rejects every
  target state and leaves the agents table as it is; \<^verbatim>\<open>transitionToFailed\<close>, allowed from
  any state, moves the agent to FAILED also from DELETED.
\<close>

theorem deleted_has_no_outgoing_transition:
  assumes "getAgent agentId w = Some agent" and "agent_status agent = DELETED"
  shows "(\<forall>toState reason.
            \<not> fst (transitionState agentId toState reason w)
            \<and> agents (snd (transitionState agentId toState reason w)) = agents w)
       \<and> (\<forall>reason. getCurrentState agentId (transitionToFailed agentId reason w) = Some FAILED)"
proof (intro conjI allI)
  fix toState reason
  show "\<not> fst (transitionState agentId toState reason w)"
    using assms by (simp add: transitionState_accepts_iff)
  then show "agents (snd (transitionState agentId toState reason w)) = agents w"
    by (rule transitionState_rejection_keeps_agents)
next
  fix reason
  show "getCurrentState agentId (transitionToFailed agentId reason w) = Some FAILED"
    using assms(1) by (rule transitionToFailed_state)
qed

theorem deleted_has_no_outgoing_transition_witness:
  "getAgent ''agent-1'' (echo_world DELETED 0) = Some (echo_bot DELETED)
   \<and> agent_status (echo_bot DELETED) = DELETED
   \<and> \<not> fst (transitionState ''agent-1'' REQUESTED None (echo_world DELETED 0))
   \<and> agents (snd (transitionState ''agent-1'' REQUESTED None (echo_world DELETED 0)))
       = agents (echo_world DELETED 0)
   \<and> getCurrentState ''agent-1'' (transitionToFailed ''agent-1'' ''boom'' (echo_world DELETED 0))
       = Some FAILED"
proof -
  have h1: "getAgent ''agent-1'' (echo_world DELETED 0) = Some (echo_bot DELETED)"
    by (simp add: getAgent_def echo_world_def)
  have h2: "agent_status (echo_bot DELETED) = DELETED"
    by (simp add: echo_bot_def)
  from deleted_has_no_outgoing_transition [OF h1 h2] h1 h2 show ?thesis by blast
qed

section \<open>ApprovalEngine: which stages ask for approval\<close>

text \<open>
  Claim C2, as stated: for MODERATE risk the answer is true only for the approval types
  DEPLOYMENT and SECURITY_RULES. The MODERATE test of the code only adds these two cases and
  then falls through to the later tests, so a MODERATE detailed plan asks for approval too.
\<close>

theorem shouldRequestApproval_moderate_detailed_plan:
  "shouldRequestApproval MODERATE DETAILED_PLAN
   \<and> DETAILED_PLAN \<noteq> DEPLOYMENT \<and> DETAILED_PLAN \<noteq> SECURITY_RULES"
  by (simp add: shouldRequestApproval_def)

text \<open>
  Claim C2, amended: \<^verbatim>\<open>shouldRequestApproval\<close> is true for every approval type when the
  risk is CRITICAL or SENSITIVE; for MODERATE risk it is true for every approval type but
  INITIAL_PLAN (DEPLOYMENT and SECURITY_RULES by the MODERATE test, MODIFICATION, DELETION
  and DETAILED_PLAN by the tests after it); for SAFE risk it is true for MODIFICATION,
  DELETION and DETAILED_PLAN and false for the rest, INITIAL_PLAN among them.
\<close>

theorem shouldRequestApproval_table:
  "shouldRequestApproval riskLevel approvalType \<longleftrightarrow>
     riskLevel = CRITICAL \<or> riskLevel = SENSITIVE
     \<or> (riskLevel = MODERATE
          \<and> approvalType \<in> {DETAILED_PLAN, SECURITY_RULES, DEPLOYMENT, MODIFICATION, DELETION})
     \<or> (riskLevel = SAFE \<and> approvalType \<in> {DETAILED_PLAN, MODIFICATION, DELETION})"
  by (cases riskLevel; cases approvalType) (simp_all add: shouldRequestApproval_def)

theorem shouldRequestApproval_table_witness:
  "shouldRequestApproval CRITICAL INITIAL_PLAN \<and> shouldRequestApproval MODERATE MODIFICATION
   \<and> shouldRequestApproval SAFE DELETION \<and> shouldRequestApproval SAFE INITIAL_PLAN = False
   \<and> shouldRequestApproval SAFE DEPLOYMENT = False"
  using shouldRequestApproval_table [of CRITICAL INITIAL_PLAN]
    shouldRequestApproval_table [of MODERATE MODIFICATION]
    shouldRequestApproval_table [of SAFE DELETION]
    shouldRequestApproval_table [of SAFE INITIAL_PLAN]
    shouldRequestApproval_table [of SAFE DEPLOYMENT]
  by simp


section \<open>ApprovalEngine: resolving and waiting\<close>

text \<open>
  Claim C4. An approval leaves PENDING once, for APPROVED, REJECTED or TIMEOUT, and no later
  \<^verbatim>\<open>processApproval\<close> changes a record that has left PENDING. The \<^verbatim>\<open>/approve\<close> and
  \<^verbatim>\<open>/reject\<close> commands keep to this (they answer "Approval already ..."), but
  \<^verbatim>\<open>processApproval\<close> writes through \<^verbatim>\<open>updateApprovalStatus\<close> without the test: a
  record that is APPROVED becomes REJECTED.
\<close>

theorem processApproval_overwrites_resolved:
  "stored_status ''approval-1'' (approval_world APPROVED) = Some APPROVED
   \<and> stored_status ''approval-1''
        (processApproval ''approval-1'' REJECTED ''second-admin'' None (approval_world APPROVED))
      = Some REJECTED
   \<and> stored_status ''approval-1''
        (handleResponseCommand ''approval-1'' REJECTED ''second-admin'' (approval_world APPROVED))
      = Some APPROVED"
  by (simp add: stored_status_def getApproval_def approval_world_def deploy_request_def
      processApproval_def handleResponseCommand_def updateApprovalStatus_def logger_defs Let_def)

text \<open>The loop of \<^verbatim>\<open>waitForApproval\<close>, poll by poll.\<close>

lemma poll_gap: "read_at clock k + pollIntervalMs \<le> test_at clock (Suc k)"
  and test_before_read: "test_at clock k \<le> read_at clock k"
  by (simp_all add: read_at_def)

lemma waitLoop_skip:
  "(\<forall>j<k. test_at clock j < timeoutMs \<and>
       status_at world_at approvalId (read_at clock j) = Some PENDING) \<Longrightarrow>
   waitLoop clock world_at approvalId timeoutMs 0 (first_test clock)
     = waitLoop clock world_at approvalId timeoutMs k (test_at clock k)"
proof (induction k)
  case 0
  then show ?case by simp
next
  case (Suc k)
  from Suc.prems have before: "\<forall>j<k. test_at clock j < timeoutMs \<and>
       status_at world_at approvalId (read_at clock j) = Some PENDING"
    by simp
  from Suc.prems [rule_format, of k]
  have lt: "test_at clock k < timeoutMs"
    and pend: "status_at world_at approvalId (read_at clock k) = Some PENDING"
    by simp_all
  have step: "waitLoop clock world_at approvalId timeoutMs k (test_at clock k)
      = waitLoop clock world_at approvalId timeoutMs (Suc k) (test_at clock (Suc k))"
    using lt pend
    by (subst waitLoop.simps)
       (auto simp: status_at_def stored_status_def read_at_def split: option.splits)
  from Suc.IH [OF before] step show ?case by simp
qed

lemma waitLoop_not_found:
  "elapsed < timeoutMs \<Longrightarrow>
   status_at world_at approvalId (elapsed + query_lag clock k) = None \<Longrightarrow>
   fst (waitLoop clock world_at approvalId timeoutMs k elapsed)
     = Inl (JsError (''Approval '' @ approvalId @ '' not found'') None)"
  by (subst waitLoop.simps) (simp add: status_at_def stored_status_def split: option.splits)

lemma waitLoop_resolved:
  "elapsed < timeoutMs \<Longrightarrow>
   status_at world_at approvalId (elapsed + query_lag clock k) = Some s \<Longrightarrow> s \<noteq> PENDING \<Longrightarrow>
   fst (waitLoop clock world_at approvalId timeoutMs k elapsed) = Inr s"
  by (subst waitLoop.simps) (auto simp: status_at_def stored_status_def split: option.splits)

lemma waitLoop_deadline:
  "timeoutMs \<le> elapsed \<Longrightarrow>
   waitLoop clock world_at approvalId timeoutMs k elapsed
     = (Inr TIMEOUT,
         logger_warning (''Approval '' @ approvalId @ '' timed out'') None
           (updateApprovalStatus approvalId TIMEOUT None None None
              (world_at (elapsed + write_lag clock))))"
  by (subst waitLoop.simps) simp

lemma stored_status_marked:
  "stored_status approvalId w \<noteq> None \<Longrightarrow>
   stored_status approvalId
     (logger_warning msg None (updateApprovalStatus approvalId TIMEOUT None None None w))
     = Some TIMEOUT"
  by (auto simp: stored_status_def getApproval_def updateApprovalStatus_def logger_defs
      split: option.splits)

lemmas approval_eval = waitForApproval_def waitLoop.simps pollIntervalMs_def status_at_def
  stored_status_def getApproval_def approval_world_def deploy_request_def
  updateApprovalStatus_def logger_defs read_at_def lagging_clock_def

text \<open>
  Claim C6, as stated: \<^verbatim>\<open>waitForApproval\<close> returns TIMEOUT exactly when the record is
  still PENDING at the deadline, and returns the resolved status when the status leaves
  PENDING before the deadline. With a deadline of 5 seconds and an approval recorded after
  3 seconds, the only poll is the one at the start (it reads after 4 ms), the next loop
  test comes after the deadline, and the call returns TIMEOUT although the record is
  APPROVED before and at the deadline, and writes TIMEOUT over it.
\<close>

theorem waitForApproval_misses_late_response:
  "status_at late_response ''approval-1'' 3000 = Some APPROVED
   \<and> status_at late_response ''approval-1'' 5000 = Some APPROVED
   \<and> fst (waitForApproval lagging_clock late_response ''approval-1'' 5000) = Inr TIMEOUT
   \<and> stored_status ''approval-1''
        (snd (waitForApproval lagging_clock late_response ''approval-1'' 5000))
       = Some TIMEOUT"
  by (simp add: approval_eval late_response_def)

text \<open>
  Claim C6, amended: \<^verbatim>\<open>waitForApproval\<close> polls the record in rounds. A round starts with
  the loop test, which lets the round run only when the time read then is before the
  deadline; the poll of the round reads the record at or after that test; and the next
  loop test comes 5000 ms after the read, or later. While the polls read PENDING the call
  goes on; at the first poll that finds the id unknown it fails with the not-found error;
  at the first poll that reads another status it returns that status; and at the first
  loop test at or after the deadline it returns TIMEOUT, and a record that is PENDING
  when the timeout is written is marked TIMEOUT. A change of status after the last poll is
  not seen. This holds for every clock; below, \<open>k\<close> is the number of polls that read
  PENDING, \<open>test_at clock k\<close> the time of the next loop test and \<open>read_at clock k\<close> the time
  of the read that follows it.
\<close>

theorem waitForApproval_polls:
  assumes "\<forall>j<k. test_at clock j < timeoutMs \<and>
             status_at world_at approvalId (read_at clock j) = Some PENDING"
  shows "(test_at clock k < timeoutMs \<and> status_at world_at approvalId (read_at clock k) = None
            \<longrightarrow> fst (waitForApproval clock world_at approvalId timeoutMs)
                  = Inl (JsError (''Approval '' @ approvalId @ '' not found'') None))
       \<and> (\<forall>s. test_at clock k < timeoutMs
              \<and> status_at world_at approvalId (read_at clock k) = Some s \<and> s \<noteq> PENDING
            \<longrightarrow> fst (waitForApproval clock world_at approvalId timeoutMs) = Inr s)
       \<and> (timeoutMs \<le> test_at clock k
            \<longrightarrow> fst (waitForApproval clock world_at approvalId timeoutMs) = Inr TIMEOUT
              \<and> (status_at world_at approvalId (test_at clock k + write_lag clock)
                    = Some PENDING
                   \<longrightarrow> stored_status approvalId
                         (snd (waitForApproval clock world_at approvalId timeoutMs))
                        = Some TIMEOUT))
       \<and> (\<forall>j. test_at clock j \<le> read_at clock j
              \<and> read_at clock j + pollIntervalMs \<le> test_at clock (Suc j))"
proof -
  have skip: "waitForApproval clock world_at approvalId timeoutMs
      = waitLoop clock world_at approvalId timeoutMs k (test_at clock k)"
    unfolding waitForApproval_def using waitLoop_skip [of k clock timeoutMs world_at approvalId]
      assms by simp
  have a: "test_at clock k < timeoutMs \<and> status_at world_at approvalId (read_at clock k) = None
            \<longrightarrow> fst (waitForApproval clock world_at approvalId timeoutMs)
                  = Inl (JsError (''Approval '' @ approvalId @ '' not found'') None)"
    unfolding skip by (simp add: waitLoop_not_found read_at_def)
  have b: "\<forall>s. test_at clock k < timeoutMs
              \<and> status_at world_at approvalId (read_at clock k) = Some s \<and> s \<noteq> PENDING
            \<longrightarrow> fst (waitForApproval clock world_at approvalId timeoutMs) = Inr s"
    unfolding skip by (simp add: waitLoop_resolved read_at_def)
  have c: "timeoutMs \<le> test_at clock k
            \<longrightarrow> fst (waitForApproval clock world_at approvalId timeoutMs) = Inr TIMEOUT
              \<and> (status_at world_at approvalId (test_at clock k + write_lag clock)
                    = Some PENDING
                   \<longrightarrow> stored_status approvalId
                         (snd (waitForApproval clock world_at approvalId timeoutMs))
                        = Some TIMEOUT)"
    unfolding skip by (simp add: waitLoop_deadline stored_status_marked status_at_def)
  have d: "\<forall>j. test_at clock j \<le> read_at clock j
              \<and> read_at clock j + pollIntervalMs \<le> test_at clock (Suc j)"
    using poll_gap test_before_read by blast
  from a b c d show ?thesis by blast
qed

theorem waitForApproval_polls_witness:
  "fst (waitForApproval lagging_clock row_removed ''approval-1'' 10000)
     = Inl (JsError ''Approval approval-1 not found'' None)
   \<and> fst (waitForApproval lagging_clock late_response ''approval-1'' 10000) = Inr APPROVED
   \<and> fst (waitForApproval lagging_clock late_response ''approval-1'' 5001) = Inr TIMEOUT
   \<and> fst (waitForApproval lagging_clock no_response ''approval-1'' 5000) = Inr TIMEOUT
   \<and> stored_status ''approval-1''
        (snd (waitForApproval lagging_clock no_response ''approval-1'' 5000)) = Some TIMEOUT"
proof -
  have times: "first_test lagging_clock = 0"
    "test_at lagging_clock 0 = 0" "read_at lagging_clock 0 = 4"
    "test_at lagging_clock 1 = 5005" "read_at lagging_clock 1 = 5009"
    "write_lag lagging_clock = 2"
    by (simp_all add: read_at_def lagging_clock_def pollIntervalMs_def)
  have reads: "status_at row_removed ''approval-1'' 4 = Some PENDING"
    "status_at row_removed ''approval-1'' 5009 = None"
    "status_at late_response ''approval-1'' 4 = Some PENDING"
    "status_at late_response ''approval-1'' 5009 = Some APPROVED"
    "status_at late_response ''approval-1'' 5007 = Some APPROVED"
    "status_at no_response ''approval-1'' 4 = Some PENDING"
    "status_at no_response ''approval-1'' 5007 = Some PENDING"
    by (simp_all add: status_at_def stored_status_def getApproval_def row_removed_def
        late_response_def no_response_def approval_world_def deploy_request_def)
  have removed: "\<forall>j<1. test_at lagging_clock j < 10000 \<and>
      status_at row_removed ''approval-1'' (read_at lagging_clock j) = Some PENDING"
    and late: "\<forall>j<1. test_at lagging_clock j < 10000 \<and>
      status_at late_response ''approval-1'' (read_at lagging_clock j) = Some PENDING"
    and late_short: "\<forall>j<1. test_at lagging_clock j < 5001 \<and>
      status_at late_response ''approval-1'' (read_at lagging_clock j) = Some PENDING"
    and quiet: "\<forall>j<1. test_at lagging_clock j < 5000 \<and>
      status_at no_response ''approval-1'' (read_at lagging_clock j) = Some PENDING"
    by (simp_all add: times reads)
  from waitForApproval_polls [OF removed, unfolded times reads]
  have a: "fst (waitForApproval lagging_clock row_removed ''approval-1'' 10000)
     = Inl (JsError ''Approval approval-1 not found'' None)"
    by simp
  from waitForApproval_polls [OF late, unfolded times reads]
  have b: "fst (waitForApproval lagging_clock late_response ''approval-1'' 10000) = Inr APPROVED"
    by simp
  from waitForApproval_polls [OF late_short, unfolded times reads]
  have d: "fst (waitForApproval lagging_clock late_response ''approval-1'' 5001) = Inr TIMEOUT"
    by simp
  from waitForApproval_polls [OF quiet, unfolded times reads]
  have e: "fst (waitForApproval lagging_clock no_response ''approval-1'' 5000) = Inr TIMEOUT
     \<and> stored_status ''approval-1''
          (snd (waitForApproval lagging_clock no_response ''approval-1'' 5000)) = Some TIMEOUT"
    by (simp add: reads)
  from a b d e show ?thesis by simp
qed

section \<open>RecoveryEngine: the retry budget\<close>

lemma is_action_of_others [simp]:
  "\<not> is_action_of a f (Logged k l msg i)"
  "\<not> is_action_of a f (SendError x y z)"
  "\<not> is_action_of a f (SendSuccess x y)"
  "\<not> is_action_of a f (SendAlert x y t)"
  "\<not> is_action_of a f (StopAgentCall c i')"
  "\<not> is_action_of a f (RestartAgentCall c i')"
  by simp_all

lemma dispatched_emit:
  "dispatched a f (emit e w) = dispatched a f w + (if is_action_of a f e then 1 else 0)"
  by (simp add: dispatched_def)

lemma dispatched_updateAgentState [simp]:
  "dispatched a f (updateAgentState b s w) = dispatched a f w"
  by (simp add: dispatched_def)

lemma dispatched_attempts_update [simp]:
  "dispatched a f (w\<lparr>recoveryAttempts := m\<rparr>) = dispatched a f w"
  by (simp add: dispatched_def)

lemma dispatched_transitionState [simp]:
  "dispatched a f (snd (transitionState b s r w)) = dispatched a f w"
  by (simp add: transitionState_def Let_def logger_defs dispatched_emit split: option.splits)

lemma dispatched_transitionToFailed [simp]:
  "dispatched a f (transitionToFailed b r w) = dispatched a f w"
  by (simp add: transitionToFailed_def logger_defs dispatched_emit split: option.splits)

lemmas strategy_defs = recoverGenerationFailure_def recoverValidationFailure_def
  recoverDeploymentFailure_def recoverRuntimeCrash_def recoverGenericFailure_def

text \<open>No strategy touches the counters, writes a recovery row or removes an agent.\<close>

lemma dispatchStrategy_attempts [simp]:
  "recoveryAttempts (snd (dispatchStrategy call a f w)) = recoveryAttempts w"
  by (simp add: dispatchStrategy_def strategy_defs Let_def logger_defs
      split: option.splits sum.splits)

lemma dispatchStrategy_dispatched [simp]:
  "dispatched a f (snd (dispatchStrategy call b g w)) = dispatched a f w"
  by (simp add: dispatchStrategy_def strategy_defs Let_def logger_defs dispatched_emit
      split: option.splits sum.splits)

lemma dispatchStrategy_exists:
  "getAgent a (snd (dispatchStrategy call b f w)) = None \<longleftrightarrow> getAgent a w = None"
  by (simp add: dispatchStrategy_def strategy_defs Let_def logger_defs transitionState_exists
      transitionToFailed_exists split: option.splits sum.splits)

text \<open>The branch taken when the counter has reached the ceiling.\<close>

lemma recover_exhausted:
  assumes "getAgent agentId w = Some agent"
    and "maxRetryAttempts \<le> int (getRecoveryAttempts agentId failureType w)"
  shows "recover maxRetryAttempts call agentId failureType w =
           (False,
            transitionToFailed agentId (''Recovery failed: '' @ failureType)
              (emit (SendError (agent_name agent)
                 (''Recovery failed after '' @ show_nat (getRecoveryAttempts agentId failureType w)
                    @ '' attempts: '' @ failureType) (stack (rc_error call)))
               (logger_error (''Max recovery attempts ('' @ show_int maxRetryAttempts
                                @ '') exceeded for '' @ failureType) (Some agentId)
                  (logger_error (''Recovery initiated for '' @ failureType) (Some agentId) w))))"
  using assms by (simp add: recover_def Let_def logger_defs)

lemma recover_exhausted_frame:
  assumes "getAgent agentId w = Some agent"
    and "maxRetryAttempts \<le> int (getRecoveryAttempts agentId failureType w)"
  shows "getRecoveryAttempts agentId failureType
           (snd (recover maxRetryAttempts call agentId failureType w))
           = getRecoveryAttempts agentId failureType w"
    and "dispatched agentId failureType (snd (recover maxRetryAttempts call agentId failureType w))
           = dispatched agentId failureType w"
    and "getCurrentState agentId (snd (recover maxRetryAttempts call agentId failureType w))
           = Some FAILED"
  using assms
  by (simp_all add: recover_exhausted logger_defs dispatched_emit getRecoveryAttempts_def
      transitionToFailed_state)

text \<open>The branch that runs a strategy.\<close>

lemma recover_dispatch:
  assumes "getAgent agentId w = Some agent"
    and "int (getRecoveryAttempts agentId failureType w) < maxRetryAttempts"
  shows "getRecoveryAttempts agentId failureType
           (snd (recover maxRetryAttempts call agentId failureType w))
           = (if fst (recover maxRetryAttempts call agentId failureType w) then 0
              else getRecoveryAttempts agentId failureType w + 1)"
    and "dispatched agentId failureType (snd (recover maxRetryAttempts call agentId failureType w))
           = dispatched agentId failureType w + 1"
  using assms
  by (simp_all add: recover_def Let_def logger_defs split_beta getRecoveryAttempts_def
      dispatched_emit)

lemma recover_exists:
  "getAgent a (snd (recover maxRetryAttempts call b f w)) = None \<longleftrightarrow> getAgent a w = None"
  by (simp add: recover_def Let_def logger_defs split_beta transitionToFailed_exists
      dispatchStrategy_exists split: option.splits)

lemma recover_run_Cons:
  "recover_run maxRetryAttempts (call # calls) agentId failureType w =
     (fst (recover maxRetryAttempts call agentId failureType w)
        # fst (recover_run maxRetryAttempts calls agentId failureType
                 (snd (recover maxRetryAttempts call agentId failureType w))),
      snd (recover_run maxRetryAttempts calls agentId failureType
             (snd (recover maxRetryAttempts call agentId failureType w))))"
  by (simp add: split_beta Let_def)

text \<open>
  In a run without a success every strategy that is run uses up one attempt, so the run
  holds no more strategies than the budget had left.
\<close>

lemma recover_run_bound:
  assumes "getAgent agentId w \<noteq> None"
    and "True \<notin> set (fst (recover_run maxRetryAttempts calls agentId failureType w))"
  shows "dispatched agentId failureType
           (snd (recover_run maxRetryAttempts calls agentId failureType w))
           \<le> dispatched agentId failureType w
               + nat (maxRetryAttempts - int (getRecoveryAttempts agentId failureType w))"
  using assms
proof (induction calls arbitrary: w)
  case Nil
  then show ?case by simp
next
  case (Cons call calls)
  obtain agent where ag: "getAgent agentId w = Some agent"
    using Cons.prems(1) by auto
  let ?r = "recover maxRetryAttempts call agentId failureType w"
  have ex1: "getAgent agentId (snd ?r) \<noteq> None"
    using Cons.prems(1) by (simp add: recover_exists)
  have nok: "\<not> fst ?r"
    and rest: "True \<notin> set (fst (recover_run maxRetryAttempts calls agentId failureType (snd ?r)))"
    using Cons.prems(2) unfolding recover_run_Cons by auto
  have IH: "dispatched agentId failureType
              (snd (recover_run maxRetryAttempts calls agentId failureType (snd ?r)))
      \<le> dispatched agentId failureType (snd ?r)
          + nat (maxRetryAttempts - int (getRecoveryAttempts agentId failureType (snd ?r)))"
    using Cons.IH [OF ex1 rest] .
  show ?case
  proof (cases "maxRetryAttempts \<le> int (getRecoveryAttempts agentId failureType w)")
    case True
    from recover_exhausted_frame(1,2) [OF ag True, of call] IH show ?thesis
      unfolding recover_run_Cons by simp
  next
    case False
    then have lt: "int (getRecoveryAttempts agentId failureType w) < maxRetryAttempts" by simp
    from recover_dispatch [OF ag lt, of call] nok IH lt show ?thesis
      unfolding recover_run_Cons by simp
  qed
qed

text \<open>
  Claim C3. For an agent and a failure class, \<^verbatim>\<open>recover\<close> runs a strategy at most
  \<open>maxRetryAttempts\<close> times (3 by default): once the counter of the pair has reached the
  ceiling, \<^verbatim>\<open>recover\<close> sends the admin an error that cites the attempt count and the
  failure class, moves the agent to FAILED and returns false, and no strategy is run (the
  number of strategies run for the pair stays the same); a call whose strategy succeeds
  leaves the counter of the pair at zero; and a run of calls for the pair without a
  success runs no more strategies than the ceiling less the counter at its start.
\<close>

theorem recover_bounded_retry:
  assumes "getAgent agentId w = Some agent"
  shows "(maxRetryAttempts \<le> int (getRecoveryAttempts agentId failureType w) \<longrightarrow>
            recover maxRetryAttempts call agentId failureType w =
              (False,
               transitionToFailed agentId (''Recovery failed: '' @ failureType)
                 (emit (SendError (agent_name agent)
                    (''Recovery failed after ''
                       @ show_nat (getRecoveryAttempts agentId failureType w)
                       @ '' attempts: '' @ failureType) (stack (rc_error call)))
                  (logger_error (''Max recovery attempts ('' @ show_int maxRetryAttempts
                                   @ '') exceeded for '' @ failureType) (Some agentId)
                     (logger_error (''Recovery initiated for '' @ failureType)
                        (Some agentId) w))))
            \<and> getCurrentState agentId (snd (recover maxRetryAttempts call agentId failureType w))
                = Some FAILED
            \<and> dispatched agentId failureType
                (snd (recover maxRetryAttempts call agentId failureType w))
                = dispatched agentId failureType w)
       \<and> (fst (recover maxRetryAttempts call agentId failureType w) \<longrightarrow>
            getRecoveryAttempts agentId failureType
              (snd (recover maxRetryAttempts call agentId failureType w)) = 0)
       \<and> (\<forall>calls. True \<notin> set (fst (recover_run maxRetryAttempts calls agentId failureType w)) \<longrightarrow>
            dispatched agentId failureType
              (snd (recover_run maxRetryAttempts calls agentId failureType w))
            \<le> dispatched agentId failureType w
                + nat (maxRetryAttempts - int (getRecoveryAttempts agentId failureType w)))"
proof (intro conjI impI allI)
  assume ex: "maxRetryAttempts \<le> int (getRecoveryAttempts agentId failureType w)"
  show "recover maxRetryAttempts call agentId failureType w =
              (False,
               transitionToFailed agentId (''Recovery failed: '' @ failureType)
                 (emit (SendError (agent_name agent)
                    (''Recovery failed after ''
                       @ show_nat (getRecoveryAttempts agentId failureType w)
                       @ '' attempts: '' @ failureType) (stack (rc_error call)))
                  (logger_error (''Max recovery attempts ('' @ show_int maxRetryAttempts
                                   @ '') exceeded for '' @ failureType) (Some agentId)
                     (logger_error (''Recovery initiated for '' @ failureType)
                        (Some agentId) w))))"
    using recover_exhausted [OF assms ex] .
  show "getCurrentState agentId (snd (recover maxRetryAttempts call agentId failureType w))
          = Some FAILED"
    using recover_exhausted_frame(3) [OF assms ex] .
  show "dispatched agentId failureType (snd (recover maxRetryAttempts call agentId failureType w))
          = dispatched agentId failureType w"
    using recover_exhausted_frame(2) [OF assms ex] .
next
  assume ok: "fst (recover maxRetryAttempts call agentId failureType w)"
  have "\<not> maxRetryAttempts \<le> int (getRecoveryAttempts agentId failureType w)"
    using ok recover_exhausted [OF assms, of maxRetryAttempts failureType call] by auto
  then have "int (getRecoveryAttempts agentId failureType w) < maxRetryAttempts" by simp
  from recover_dispatch(1) [OF assms this, of call] ok
  show "getRecoveryAttempts agentId failureType
          (snd (recover maxRetryAttempts call agentId failureType w)) = 0" by simp
next
  fix calls
  assume "True \<notin> set (fst (recover_run maxRetryAttempts calls agentId failureType w))"
  with assms show "dispatched agentId failureType
              (snd (recover_run maxRetryAttempts calls agentId failureType w))
            \<le> dispatched agentId failureType w
                + nat (maxRetryAttempts - int (getRecoveryAttempts agentId failureType w))"
    by (intro recover_run_bound) auto
qed


lemmas example_defs = getAgent_def getRecoveryAttempts_def attemptKey_def echo_world_def
  echo_bot_def generation_error_def getCurrentState_def

lemmas recover_eval = recover_def dispatchStrategy_def recoverGenerationFailure_def
  transitionState_def transitionToFailed_def isValidTransition_def updateAgentState_def
  logger_defs Let_def

theorem recover_bounded_retry_witness:
  "recover 3 generation_error ''agent-1'' ''generation_failure'' (echo_world GENERATING 3) =
     (False,
      transitionToFailed ''agent-1'' ''Recovery failed: generation_failure''
        (emit (SendError ''echo-bot'' ''Recovery failed after 3 attempts: generation_failure'' None)
           (logger_error ''Max recovery attempts (3) exceeded for generation_failure''
              (Some ''agent-1'')
              (logger_error ''Recovery initiated for generation_failure'' (Some ''agent-1'')
                 (echo_world GENERATING 3)))))
   \<and> getCurrentState ''agent-1''
        (snd (recover 3 generation_error ''agent-1'' ''generation_failure''
           (echo_world GENERATING 3))) = Some FAILED
   \<and> dispatched ''agent-1'' ''generation_failure''
        (snd (recover 3 generation_error ''agent-1'' ''generation_failure''
           (echo_world GENERATING 3))) = 0
   \<and> fst (recover 3 generation_error ''agent-1'' ''generation_failure'' (echo_world FAILED 2))
   \<and> getRecoveryAttempts ''agent-1'' ''generation_failure''
        (snd (recover 3 generation_error ''agent-1'' ''generation_failure''
           (echo_world FAILED 2))) = 0
   \<and> dispatched ''agent-1'' ''generation_failure''
        (snd (recover_run 3
           [generation_error, generation_error, generation_error, generation_error]
           ''agent-1'' ''generation_failure'' (echo_world GENERATING 1))) \<le> 2"
proof -
  have full: "getAgent ''agent-1'' (echo_world GENERATING 3) = Some (echo_bot GENERATING)"
    and full_count: "(3::int) \<le> int (getRecoveryAttempts ''agent-1'' ''generation_failure''
                        (echo_world GENERATING 3))"
    and full_before: "dispatched ''agent-1'' ''generation_failure'' (echo_world GENERATING 3) = 0"
    by (simp_all add: example_defs dispatched_def)
  have retry: "getAgent ''agent-1'' (echo_world FAILED 2) = Some (echo_bot FAILED)"
    and retry_ok: "fst (recover 3 generation_error ''agent-1'' ''generation_failure''
                     (echo_world FAILED 2))"
    by (simp_all add: example_defs recover_eval)
  have stuck: "getAgent ''agent-1'' (echo_world GENERATING 1) = Some (echo_bot GENERATING)"
    and stuck_run: "True \<notin> set (fst (recover_run 3
           [generation_error, generation_error, generation_error, generation_error]
           ''agent-1'' ''generation_failure'' (echo_world GENERATING 1)))"
    and stuck_before: "dispatched ''agent-1'' ''generation_failure'' (echo_world GENERATING 1) = 0"
    and stuck_count: "getRecoveryAttempts ''agent-1'' ''generation_failure''
                        (echo_world GENERATING 1) = 1"
    by (simp_all add: example_defs recover_eval dispatched_def emit_def)
  have texts: "show_nat (getRecoveryAttempts ''agent-1'' ''generation_failure''
                  (echo_world GENERATING 3)) = ''3''"
      "show_int 3 = ''3''" "agent_name (echo_bot GENERATING) = ''echo-bot''"
      "stack (rc_error generation_error) = None"
    by (simp_all add: example_defs show_nat_3 show_int_3)
  from recover_bounded_retry [OF full, of 3 "''generation_failure''" generation_error]
    full_count
  have "recover 3 generation_error ''agent-1'' ''generation_failure'' (echo_world GENERATING 3) =
     (False,
      transitionToFailed ''agent-1'' (''Recovery failed: '' @ ''generation_failure'')
        (emit (SendError (agent_name (echo_bot GENERATING))
           (''Recovery failed after ''
              @ show_nat (getRecoveryAttempts ''agent-1'' ''generation_failure''
                   (echo_world GENERATING 3))
              @ '' attempts: '' @ ''generation_failure'') (stack (rc_error generation_error)))
           (logger_error (''Max recovery attempts ('' @ show_int 3 @ '') exceeded for ''
                            @ ''generation_failure'') (Some ''agent-1'')
              (logger_error (''Recovery initiated for '' @ ''generation_failure'')
                 (Some ''agent-1'') (echo_world GENERATING 3)))))
   \<and> getCurrentState ''agent-1''
        (snd (recover 3 generation_error ''agent-1'' ''generation_failure''
           (echo_world GENERATING 3))) = Some FAILED
   \<and> dispatched ''agent-1'' ''generation_failure''
        (snd (recover 3 generation_error ''agent-1'' ''generation_failure''
           (echo_world GENERATING 3)))
       = dispatched ''agent-1'' ''generation_failure'' (echo_world GENERATING 3)"
    by blast
  note raw = this [unfolded texts full_before, simplified]
  have a: "recover 3 generation_error ''agent-1'' ''generation_failure''
       (echo_world GENERATING 3) =
     (False,
      transitionToFailed ''agent-1'' ''Recovery failed: generation_failure''
        (emit (SendError ''echo-bot'' ''Recovery failed after 3 attempts: generation_failure'' None)
           (logger_error ''Max recovery attempts (3) exceeded for generation_failure''
              (Some ''agent-1'')
              (logger_error ''Recovery initiated for generation_failure'' (Some ''agent-1'')
                 (echo_world GENERATING 3)))))
   \<and> getCurrentState ''agent-1''
        (snd (recover 3 generation_error ''agent-1'' ''generation_failure''
           (echo_world GENERATING 3))) = Some FAILED
   \<and> dispatched ''agent-1'' ''generation_failure''
        (snd (recover 3 generation_error ''agent-1'' ''generation_failure''
           (echo_world GENERATING 3))) = 0"
    by (rule raw)
  from recover_bounded_retry [OF retry, of 3 "''generation_failure''" generation_error] retry_ok
  have b: "getRecoveryAttempts ''agent-1'' ''generation_failure''
        (snd (recover 3 generation_error ''agent-1'' ''generation_failure''
           (echo_world FAILED 2))) = 0"
    by blast
  from recover_bounded_retry [OF stuck, of 3 "''generation_failure''" generation_error]
    stuck_run
  have "dispatched ''agent-1'' ''generation_failure''
        (snd (recover_run 3
           [generation_error, generation_error, generation_error, generation_error]
           ''agent-1'' ''generation_failure'' (echo_world GENERATING 1)))
      \<le> dispatched ''agent-1'' ''generation_failure'' (echo_world GENERATING 1)
          + nat (3 - int (getRecoveryAttempts ''agent-1'' ''generation_failure''
                            (echo_world GENERATING 1)))"
    by blast
  then have c: "dispatched ''agent-1'' ''generation_failure''
        (snd (recover_run 3
           [generation_error, generation_error, generation_error, generation_error]
           ''agent-1'' ''generation_failure'' (echo_world GENERATING 1))) \<le> 2"
    unfolding stuck_before stuck_count by simp
  from a b c retry_ok show ?thesis by blast
qed


text \<open>
  Claim C9, as stated: with the budget for \<^verbatim>\<open>generation_failure\<close> used up at ceiling 3,
  the next \<^verbatim>\<open>recover\<close> moves the agent to FAILED with the reason "Recovery failed after
  3 attempts: generation_failure". That text is the one sent to the admin; the reason
  handed to \<^verbatim>\<open>transitionToFailed\<close>, and logged with the transition, is "Recovery failed:
  generation_failure".
\<close>

theorem recover_exhausted_reason_differs:
  "events (snd (recover 3 generation_error ''agent-1'' ''generation_failure''
      (echo_world GENERATING 3)))
     = [Logged LT_ERROR LL_ERROR ''Recovery initiated for generation_failure'' (Some ''agent-1''),
        Logged LT_ERROR LL_ERROR ''Max recovery attempts (3) exceeded for generation_failure''
          (Some ''agent-1''),
        SendError ''echo-bot'' ''Recovery failed after 3 attempts: generation_failure'' None,
        Logged LT_ERROR LL_ERROR
          ''Agent transitioned to FAILED state: Recovery failed: generation_failure''
          (Some ''agent-1'')]
   \<and> snd (recover 3 generation_error ''agent-1'' ''generation_failure''
          (echo_world GENERATING 3))
       \<noteq> transitionToFailed ''agent-1'' ''Recovery failed after 3 attempts: generation_failure''
           (emit (SendError ''echo-bot''
              ''Recovery failed after 3 attempts: generation_failure'' None)
              (logger_error ''Max recovery attempts (3) exceeded for generation_failure''
                 (Some ''agent-1'')
                 (logger_error ''Recovery initiated for generation_failure'' (Some ''agent-1'')
                    (echo_world GENERATING 3))))"
proof -
  have ev: "events (snd (recover 3 generation_error ''agent-1'' ''generation_failure''
      (echo_world GENERATING 3)))
     = [Logged LT_ERROR LL_ERROR ''Recovery initiated for generation_failure'' (Some ''agent-1''),
        Logged LT_ERROR LL_ERROR ''Max recovery attempts (3) exceeded for generation_failure''
          (Some ''agent-1''),
        SendError ''echo-bot'' ''Recovery failed after 3 attempts: generation_failure'' None,
        Logged LT_ERROR LL_ERROR
          ''Agent transitioned to FAILED state: Recovery failed: generation_failure''
          (Some ''agent-1'')]"
    by (simp add: example_defs recover_eval show_nat_3 show_int_3)
  have other: "events (transitionToFailed ''agent-1''
           ''Recovery failed after 3 attempts: generation_failure''
           (emit (SendError ''echo-bot''
              ''Recovery failed after 3 attempts: generation_failure'' None)
              (logger_error ''Max recovery attempts (3) exceeded for generation_failure''
                 (Some ''agent-1'')
                 (logger_error ''Recovery initiated for generation_failure'' (Some ''agent-1'')
                    (echo_world GENERATING 3)))))
     = [Logged LT_ERROR LL_ERROR ''Recovery initiated for generation_failure'' (Some ''agent-1''),
        Logged LT_ERROR LL_ERROR ''Max recovery attempts (3) exceeded for generation_failure''
          (Some ''agent-1''),
        SendError ''echo-bot'' ''Recovery failed after 3 attempts: generation_failure'' None,
        Logged LT_ERROR LL_ERROR
          ''Agent transitioned to FAILED state: Recovery failed after 3 attempts: generation_failure''
          (Some ''agent-1'')]"
    by (simp add: example_defs recover_eval)
  have "events (snd (recover 3 generation_error ''agent-1'' ''generation_failure''
      (echo_world GENERATING 3)))
     \<noteq> events (transitionToFailed ''agent-1''
           ''Recovery failed after 3 attempts: generation_failure''
           (emit (SendError ''echo-bot''
              ''Recovery failed after 3 attempts: generation_failure'' None)
              (logger_error ''Max recovery attempts (3) exceeded for generation_failure''
                 (Some ''agent-1'')
                 (logger_error ''Recovery initiated for generation_failure'' (Some ''agent-1'')
                    (echo_world GENERATING 3)))))"
    unfolding ev other by simp
  then have "snd (recover 3 generation_error ''agent-1'' ''generation_failure''
          (echo_world GENERATING 3))
       \<noteq> transitionToFailed ''agent-1'' ''Recovery failed after 3 attempts: generation_failure''
           (emit (SendError ''echo-bot''
              ''Recovery failed after 3 attempts: generation_failure'' None)
              (logger_error ''Max recovery attempts (3) exceeded for generation_failure''
                 (Some ''agent-1'')
                 (logger_error ''Recovery initiated for generation_failure'' (Some ''agent-1'')
                    (echo_world GENERATING 3))))"
    by metis
  with ev show ?thesis by blast
qed

text \<open>
  Claim C9, amended: with the budget for \<^verbatim>\<open>generation_failure\<close> used up at ceiling 3,
  the next \<^verbatim>\<open>recover\<close> sends the admin the error "Recovery failed after 3 attempts:
  generation_failure", moves the agent to FAILED with the reason "Recovery failed:
  generation_failure" and returns false.
\<close>

theorem recover_exhausted_generation_failure:
  assumes "getAgent agentId w = Some agent"
    and "getRecoveryAttempts agentId ''generation_failure'' w = 3"
  shows "recover 3 call agentId ''generation_failure'' w =
           (False,
            transitionToFailed agentId ''Recovery failed: generation_failure''
              (emit (SendError (agent_name agent)
                 ''Recovery failed after 3 attempts: generation_failure'' (stack (rc_error call)))
               (logger_error ''Max recovery attempts (3) exceeded for generation_failure''
                  (Some agentId)
                  (logger_error ''Recovery initiated for generation_failure'' (Some agentId) w))))
       \<and> getCurrentState agentId (snd (recover 3 call agentId ''generation_failure'' w))
           = Some FAILED"
proof -
  have full: "(3::int) \<le> int (getRecoveryAttempts agentId ''generation_failure'' w)"
    using assms(2) by simp
  from recover_exhausted [OF assms(1) full, of call]
    recover_exhausted_frame(3) [OF assms(1) full, of call]
  show ?thesis
    by (simp add: assms(2) show_nat_3 show_int_3)
qed

theorem recover_exhausted_generation_failure_witness:
  "recover 3 generation_error ''agent-1'' ''generation_failure'' (echo_world GENERATING 3) =
     (False,
      transitionToFailed ''agent-1'' ''Recovery failed: generation_failure''
        (emit (SendError ''echo-bot'' ''Recovery failed after 3 attempts: generation_failure'' None)
           (logger_error ''Max recovery attempts (3) exceeded for generation_failure''
              (Some ''agent-1'')
              (logger_error ''Recovery initiated for generation_failure'' (Some ''agent-1'')
                 (echo_world GENERATING 3)))))"
proof -
  have h1: "getAgent ''agent-1'' (echo_world GENERATING 3) = Some (echo_bot GENERATING)"
    and h2: "getRecoveryAttempts ''agent-1'' ''generation_failure'' (echo_world GENERATING 3) = 3"
    by (simp_all add: example_defs)
  have texts: "agent_name (echo_bot GENERATING) = ''echo-bot''"
    "stack (rc_error generation_error) = None"
    by (simp_all add: example_defs)
  note raw = recover_exhausted_generation_failure [OF h1 h2, of generation_error,
      THEN conjunct1, unfolded texts]
  show ?thesis by (rule raw)
qed


section \<open>DeploymentEngine: the local start check and the resource limits\<close>

text \<open>
  Claim C7. A local deployment whose child exits inside the grace period returns a failure
  with the error "Process failed to start". The source announces the check ("Check if
  process is still running") but tests \<^verbatim>\<open>childProcess.killed\<close>, which only tells whether
  the engine itself has sent the child a signal: a child that has exited by itself with
  code 1 is reported as a successful deployment and is recorded as running.
\<close>

theorem deployAgent_reports_exited_child_as_running:
  "exitCode (spawned crash_env) = Some 1
   \<and> fst (deployAgent crash_env ''agent-1'' ''echo-bot'' local_strategy no_deployments)
       = \<lparr>success = True, deployment_id = Some ''agent-1'', process_id = Some 4242,
          container_id = None, error_message = None\<rparr>
   \<and> map_option dm_running
        (deployments
           (snd (deployAgent crash_env ''agent-1'' ''echo-bot'' local_strategy no_deployments))
           ''agent-1'') = Some True"
  by (simp add: deployAgent_def deployLocal_def crash_env_def crashed_child_def
      local_strategy_def no_deployments_def Let_def)

text \<open>Decimal digits: \<open>show_nat\<close> writes what \<open>parse_digits\<close> reads.\<close>

lemma digit_char_props:
  assumes "d < 10"
  shows "is_digit (digit_char d)" and "digit_val (digit_char d) = d"
  using assms by (simp_all add: is_digit_def digit_val_def digit_char_def)

lemma parse_digits_snoc: "parse_digits (ds @ [c]) = 10 * parse_digits ds + digit_val c"
  by (simp add: parse_digits_def)

lemma show_nat_digits: "\<forall>c \<in> set (show_nat n). is_digit c"
proof (induction n rule: show_nat.induct)
  case (1 n)
  show ?case
  proof (cases "n < 10")
    case True
    then show ?thesis by (subst show_nat.simps) (simp add: digit_char_props)
  next
    case False
    with 1 show ?thesis by (subst show_nat.simps) (simp add: digit_char_props)
  qed
qed

lemma show_nat_nonempty: "show_nat n \<noteq> []"
  by (subst show_nat.simps) simp

lemma parse_digits_show_nat: "parse_digits (show_nat n) = n"
proof (induction n rule: show_nat.induct)
  case (1 n)
  show ?case
  proof (cases "n < 10")
    case True
    then show ?thesis
      by (subst show_nat.simps) (simp add: parse_digits_def digit_char_props)
  next
    case False
    with 1 show ?thesis
      by (subst show_nat.simps) (simp add: parse_digits_snoc digit_char_props)
  qed
qed

lemma split_digits:
  assumes "\<not> is_digit u"
  shows "takeWhile is_digit (show_nat n @ [u]) = show_nat n"
    and "dropWhile is_digit (show_nat n @ [u]) = [u]"
  using assms show_nat_digits [of n] by (simp_all add: takeWhile_append2 dropWhile_append2)

lemma parseMemoryLimit_mebibytes:
  "parseMemoryLimit (Some (show_nat n @ ''m'')) = Some (n * 2 ^ 20)"
proof -
  have nd: "\<not> is_digit CHR ''m''" by (simp add: is_digit_def)
  show ?thesis
    by (simp add: parseMemoryLimit_def Let_def split_digits [OF nd] show_nat_nonempty
        parse_digits_show_nat)
qed

lemma parseMemoryLimit_gibibytes:
  "parseMemoryLimit (Some (show_nat n @ ''g'')) = Some (n * 2 ^ 30)"
proof -
  have nd: "\<not> is_digit CHR ''g''" by (simp add: is_digit_def)
  show ?thesis
    by (simp add: parseMemoryLimit_def Let_def split_digits [OF nd] show_nat_nonempty
        parse_digits_show_nat)
qed

lemma parseMemoryLimit_512m: "parseMemoryLimit (Some ''512m'') = Some 536870912"
  by (simp add: parseMemoryLimit_def is_digit_def parse_digits_def digit_val_def)

lemma parseCpuLimit_half: "parseCpuLimit (Some ''0.5'') = Some (Finite (1 / 2 * 10 ^ 9))"
  by (simp add: parseCpuLimit_def parseFloat_def is_space_def unsigned_literal_def is_digit_def
      parse_digits_def digit_val_def exponent_part_def pow10_def Let_def)

text \<open>
  Claim C10. A container deployment with the resource limits \<^verbatim>\<open>memory_limit: "512m"\<close> and
  \<^verbatim>\<open>cpu_limit: "0.5"\<close> asks Docker for a container with exactly 536870912 bytes of memory
  and \<open>0.5 * 10 ^ 9\<close> NanoCpus (0.5 cores), as soon as the image is built; and in general
  the memory string of the decimal digits of \<open>n\<close> followed by \<^verbatim>\<open>m\<close> gives \<open>n * 2 ^ 20\<close> bytes,
  followed by \<^verbatim>\<open>g\<close> it gives \<open>n * 2 ^ 30\<close> bytes (for \<open>n\<close> below \<open>2 ^ 53\<close>, where JavaScript's
  numbers are exact).
\<close>

theorem resource_limits_translation:
  "(target strategy = DOCKER \<and> resource_limits strategy = Some weather_limits
      \<and> docker_build env = None \<longrightarrow>
      created (snd (deployAgent env agentId agentName strategy d))
        = created d @ [(agentName, \<lparr>RestartPolicy = ''unless-stopped'', Memory = Some 536870912,
                                     NanoCpus = Some (Finite (1 / 2 * 10 ^ 9))\<rparr>)])
   \<and> (n < 2 ^ 53 \<longrightarrow>
        parseMemoryLimit (Some (show_nat n @ ''m'')) = Some (n * 2 ^ 20)
        \<and> parseMemoryLimit (Some (show_nat n @ ''g'')) = Some (n * 2 ^ 30))"
proof (intro conjI impI)
  assume h: "target strategy = DOCKER \<and> resource_limits strategy = Some weather_limits
      \<and> docker_build env = None"
  have hc: "hostConfig strategy = \<lparr>RestartPolicy = ''unless-stopped'', Memory = Some 536870912,
                                   NanoCpus = Some (Finite (1 / 2 * 10 ^ 9))\<rparr>"
    using h by (simp add: hostConfig_def weather_limits_def parseMemoryLimit_512m
        parseCpuLimit_half)
  show "created (snd (deployAgent env agentId agentName strategy d))
        = created d @ [(agentName, \<lparr>RestartPolicy = ''unless-stopped'', Memory = Some 536870912,
                                     NanoCpus = Some (Finite (1 / 2 * 10 ^ 9))\<rparr>)]"
    using h by (simp add: deployAgent_def deployDocker_def hc Let_def split_beta
        split: option.splits)
next
  show "parseMemoryLimit (Some (show_nat n @ ''m'')) = Some (n * 2 ^ 20)"
    by (rule parseMemoryLimit_mebibytes)
  show "parseMemoryLimit (Some (show_nat n @ ''g'')) = Some (n * 2 ^ 30)"
    by (rule parseMemoryLimit_gibibytes)
qed

theorem resource_limits_translation_witness:
  "created (snd (deployAgent crash_env ''agent-2'' ''weather-bot'' weather_strategy no_deployments))
     = [(''weather-bot'', \<lparr>RestartPolicy = ''unless-stopped'', Memory = Some 536870912,
                           NanoCpus = Some (Finite 500000000)\<rparr>)]
   \<and> parseMemoryLimit (Some ''512m'') = Some (512 * 2 ^ 20)
   \<and> parseMemoryLimit (Some ''1g'') = Some 1073741824"
proof -
  have h: "target weather_strategy = DOCKER \<and> resource_limits weather_strategy = Some weather_limits
      \<and> docker_build crash_env = None"
    by (simp add: weather_strategy_def crash_env_def)
  have small: "(512::nat) < 2 ^ 53" "(1::nat) < 2 ^ 53" by simp_all
  have digits: "show_nat 512 = ''512''" "show_nat 1 = ''1''"
    by (simp_all add: show_nat.simps digit_char_simps)
  have start: "created no_deployments = []" by (simp add: no_deployments_def)
  from resource_limits_translation
    [of weather_strategy crash_env "''agent-2''" "''weather-bot''" no_deployments 512] h small(1)
  have a: "created (snd (deployAgent crash_env ''agent-2'' ''weather-bot'' weather_strategy
                           no_deployments))
        = created no_deployments @ [(''weather-bot'',
             \<lparr>RestartPolicy = ''unless-stopped'', Memory = Some 536870912,
              NanoCpus = Some (Finite (1 / 2 * 10 ^ 9))\<rparr>)]"
    and b: "parseMemoryLimit (Some (show_nat 512 @ ''m'')) = Some (512 * 2 ^ 20)"
    by blast+
  from resource_limits_translation
    [of weather_strategy crash_env "''agent-2''" "''weather-bot''" no_deployments 1] small(2)
  have c: "parseMemoryLimit (Some (show_nat 1 @ ''g'')) = Some (1 * 2 ^ 30)"
    by blast
  from a b c show ?thesis
    unfolding digits start by simp
qed


section \<open>MonitorEngine: the autonomous restart\<close>

lemma tell_fields [simp]:
  "trace (tell e m) = trace m @ [e]"
  "sessions (tell e m) = sessions m"
  by (simp_all add: tell_def)

lemma autonomous_snoc:
  "autonomous_restarts a []  = 0"
  "autonomous_restarts a (e # es)
     = (if e = RestartAgentCall FromUnhealthy a then 1 else 0) + autonomous_restarts a es"
  "autonomous_restarts a (es @ es') = autonomous_restarts a es + autonomous_restarts a es'"
  by (induction es) (simp_all add: autonomous_restarts_def)

text \<open>The alert conditions change neither the sessions nor the count of autonomous restarts.\<close>

lemma handleAlert_sessions [simp]:
  "sessions (handleAlert agentId agentName metricName v t act m) = sessions m"
  by (simp add: handleAlert_def Let_def split: AlertAction.splits)

lemma handleAlert_autonomous [simp]:
  "autonomous_restarts a (trace (handleAlert agentId agentName metricName v t act m))
     = autonomous_restarts a (trace m)"
  by (simp add: handleAlert_def Let_def autonomous_snoc split: AlertAction.splits)

lemma checkAlertConditions_sessions [simp]:
  "sessions (checkAlertConditions agentId agentName hs cs m) = sessions m"
  by (induction cs arbitrary: m) (simp_all split: option.splits)

lemma checkAlertConditions_autonomous [simp]:
  "autonomous_restarts a (trace (checkAlertConditions agentId agentName hs cs m))
     = autonomous_restarts a (trace m)"
  by (induction cs arbitrary: m) (simp_all split: option.splits)

lemma handleUnhealthy_autonomous:
  assumes "sessions m agentId = Some history"
  shows "autonomous_restarts agentId (trace (handleUnhealthy tick agentId agentName reason m))
     = autonomous_restarts agentId (trace m) + (if recentUnhealthy history \<ge> 3 then 1 else 0)"
  using assms
  by (simp add: handleUnhealthy_def Let_def autonomous_snoc split: sum.splits)

lemma handleUnhealthy_sessions [simp]:
  "sessions (handleUnhealthy tick agentId agentName reason m) = sessions m"
  by (simp add: handleUnhealthy_def Let_def split: sum.splits option.splits)

lemma tick_result_unhealthy:
  "hs_status (tick_result thr tick) = unhealthy \<longleftrightarrow> \<not> isRunning tick"
  by (simp add: tick_result_def)

lemma performHealthCheck_no_deployment:
  "sessions m agentId = Some history \<Longrightarrow> \<not> deployment_found tick \<Longrightarrow>
   performHealthCheck thr tick agentId agentName strategy m
     = handleUnhealthy tick agentId agentName ''No deployment found'' m"
  by (simp add: performHealthCheck_def)

lemma performHealthCheck_checked:
  assumes "sessions m agentId = Some history" and "deployment_found tick"
  shows "sessions (performHealthCheck thr tick agentId agentName strategy m) agentId
           = Some (push_capped history (tick_result thr tick))"
    and "autonomous_restarts agentId
           (trace (performHealthCheck thr tick agentId agentName strategy m))
         = autonomous_restarts agentId (trace m)
           + (if \<not> isRunning tick
                 \<and> recentUnhealthy (push_capped history (tick_result thr tick)) \<ge> 3
              then 1 else 0)"
proof -
  let ?kept = "push_capped history (tick_result thr tick)"
  let ?m1 = "tell (Logged LT_MONITORING LL_INFO
                (''Health check: '' @ health_name (hs_status (tick_result thr tick)))
                (Some agentId))
               (m\<lparr>sessions := (sessions m)(agentId \<mapsto> ?kept)\<rparr>)"
  let ?m2 = "checkAlertConditions agentId agentName (tick_result thr tick)
               (alert_conditions strategy) ?m1"
  have m2_sessions: "sessions ?m2 agentId = Some ?kept" by simp
  have m2_auto: "autonomous_restarts agentId (trace ?m2) = autonomous_restarts agentId (trace m)"
    by (simp add: autonomous_snoc)
  have unfold: "performHealthCheck thr tick agentId agentName strategy m
      = (if \<not> isRunning tick
         then handleUnhealthy tick agentId agentName
                (join_issues (hs_issues (tick_result thr tick))) ?m2
         else ?m2)"
    using assms by (simp add: performHealthCheck_def Let_def tick_result_unhealthy)
  show "sessions (performHealthCheck thr tick agentId agentName strategy m) agentId = Some ?kept"
    unfolding unfold using m2_sessions by simp
  show "autonomous_restarts agentId
           (trace (performHealthCheck thr tick agentId agentName strategy m))
         = autonomous_restarts agentId (trace m)
           + (if \<not> isRunning tick \<and> recentUnhealthy ?kept \<ge> 3 then 1 else 0)"
    unfolding unfold using handleUnhealthy_autonomous [OF m2_sessions] m2_auto by simp
qed

lemmas monitor_eval = performHealthCheck_def handleUnhealthy_def tick_result_def push_capped_def
  recentUnhealthy_def last5_def monitor_with_def running_tick_def stopped_tick_def
  plain_strategy_def check_def autonomous_restarts_def history_after_def Let_def

text \<open>
  Claim C8, as stated: on every tick the engine attempts exactly one autonomous restart
  when at least 3 of the last 5 recorded results are unhealthy. The test sits in
  \<^verbatim>\<open>handleUnhealthy\<close>, which a tick reaches only when its own result is unhealthy (or the
  deployment is missing): after three unhealthy results and one healthy one, a tick that
  finds the agent running records a healthy result, 3 of the last 5 results are unhealthy,
  and no restart is attempted.
\<close>

theorem healthy_tick_attempts_no_restart:
  "sessions (performHealthCheck 10 running_tick ''agent-1'' ''echo-bot'' plain_strategy
      (monitor_with [check unhealthy, check unhealthy, check unhealthy, check healthy]))
      ''agent-1''
     = Some [check unhealthy, check unhealthy, check unhealthy, check healthy, check healthy]
   \<and> recentUnhealthy
        [check unhealthy, check unhealthy, check unhealthy, check healthy, check healthy] = 3
   \<and> autonomous_restarts ''agent-1''
        (trace (performHealthCheck 10 running_tick ''agent-1'' ''echo-bot'' plain_strategy
           (monitor_with [check unhealthy, check unhealthy, check unhealthy, check healthy])))
       = 0"
  by (simp add: monitor_eval)

text \<open>
  Claim C8, amended: on a tick whose own result is unhealthy (the agent is not running), or
  that finds no deployment, the engine attempts exactly one autonomous restart when at
  least 3 of the last 5 results of the session's history, this tick's result included, are
  unhealthy, and none when fewer are; on a tick whose result is healthy or degraded it
  attempts none. The configured alert conditions have no part in this.
\<close>

theorem autonomous_restart_on_unhealthy_tick:
  assumes "sessions m agentId = Some history"
  shows "sessions (performHealthCheck thr tick agentId agentName strategy m) agentId
           = Some (history_after thr tick history)
       \<and> autonomous_restarts agentId
           (trace (performHealthCheck thr tick agentId agentName strategy m))
         = autonomous_restarts agentId (trace m)
           + (if (\<not> deployment_found tick \<or> \<not> isRunning tick)
                 \<and> recentUnhealthy (history_after thr tick history) \<ge> 3
              then 1 else 0)"
proof (cases "deployment_found tick")
  case True
  from performHealthCheck_checked [OF assms True, of thr agentName strategy] True
  show ?thesis by (simp add: history_after_def)
next
  case False
  from performHealthCheck_no_deployment [OF assms False, of thr agentName strategy]
    handleUnhealthy_autonomous [OF assms, of tick agentName "''No deployment found''"]
    assms False
  show ?thesis by (simp add: history_after_def)
qed

theorem autonomous_restart_on_unhealthy_tick_witness:
  "autonomous_restarts ''agent-1''
     (trace (performHealthCheck 10 stopped_tick ''agent-1'' ''echo-bot'' plain_strategy
        (monitor_with [check healthy, check unhealthy, check healthy, check unhealthy]))) = 1
   \<and> autonomous_restarts ''agent-1''
     (trace (performHealthCheck 10 stopped_tick ''agent-1'' ''echo-bot'' plain_strategy
        (monitor_with [check healthy, check healthy, check healthy, check unhealthy]))) = 0"
proof -
  have three: "sessions (monitor_with [check healthy, check unhealthy, check healthy,
      check unhealthy]) ''agent-1''
      = Some [check healthy, check unhealthy, check healthy, check unhealthy]"
    and two: "sessions (monitor_with [check healthy, check healthy, check healthy,
      check unhealthy]) ''agent-1''
      = Some [check healthy, check healthy, check healthy, check unhealthy]"
    by (simp_all add: monitor_with_def)
  have counts:
    "recentUnhealthy (history_after 10 stopped_tick
       [check healthy, check unhealthy, check healthy, check unhealthy]) = 3"
    "recentUnhealthy (history_after 10 stopped_tick
       [check healthy, check healthy, check healthy, check unhealthy]) = 2"
    "autonomous_restarts ''agent-1'' (trace (monitor_with [check healthy, check unhealthy,
       check healthy, check unhealthy])) = 0"
    "autonomous_restarts ''agent-1'' (trace (monitor_with [check healthy, check healthy,
       check healthy, check unhealthy])) = 0"
    by (simp_all add: monitor_eval)
  have stopped: "\<not> isRunning stopped_tick"
    by (simp add: stopped_tick_def)
  from autonomous_restart_on_unhealthy_tick
    [OF three, of 10 stopped_tick "''echo-bot''" plain_strategy]
    autonomous_restart_on_unhealthy_tick
    [OF two, of 10 stopped_tick "''echo-bot''" plain_strategy]
    stopped
  show ?thesis
    unfolding counts by simp
qed

end
